theory Spec2Isabelle
  imports Complex_Main "HOL-Library.AList"
begin

section \<open>Python values\<close>

text \<open>
  The batch orchestrator of \<^verbatim>\<open>toxicity_classifier_files/app/gemini_api.py\<close> handles
  values decoded by \<^verbatim>\<open>json.loads\<close>: \<^verbatim>\<open>None\<close>, booleans, integers, floats, strings,
  lists and dictionaries with string keys. A string is a list of characters (code points
  below 256). A float keeps its exact value; the three non-finite floats that
  \<^verbatim>\<open>json.loads\<close> accepts are values of their own. A dictionary is the list of its items
  in insertion order.
\<close>

datatype pyfloat = Finite rat | PosInfinity | NegInfinity | NaN

datatype json =
    JNull
  | JBool bool
  | JInt int
  | JFloat pyfloat
  | JStr string
  | JArr "json list"
  | JObj "(string \<times> json) list"

text \<open>\<^verbatim>\<open>type(v).__name__\<close>, as it appears in the interpreter's error messages.\<close>

fun type_name :: "json \<Rightarrow> string" where
  "type_name JNull = ''NoneType''"
| "type_name (JBool b) = ''bool''"
| "type_name (JInt i) = ''int''"
| "type_name (JFloat f) = ''float''"
| "type_name (JStr s) = ''str''"
| "type_name (JArr xs) = ''list''"
| "type_name (JObj kvs) = ''dict''"

text \<open>The truth value of a Python object, as \<^verbatim>\<open>if v:\<close> tests it.\<close>

fun truthy :: "json \<Rightarrow> bool" where
  "truthy JNull = False"
| "truthy (JBool b) = b"
| "truthy (JInt i) = (i \<noteq> 0)"
| "truthy (JFloat (Finite r)) = (r \<noteq> 0)"
| "truthy (JFloat f) = True"
| "truthy (JStr s) = (s \<noteq> [])"
| "truthy (JArr xs) = (xs \<noteq> [])"
| "truthy (JObj kvs) = (kvs \<noteq> [])"

section \<open>Exceptions\<close>

datatype type_error =
    NotSubscriptable string
  | NotIterable string
  | Unhashable string

datatype exn =
    JSONDecodeError string
  | AttributeError string string
  | TypeError type_error
  | KeyError json
  | IndexError
  | UnboundLocalError string
  | ValidationError
  | RuntimeError string
  | ClientError string

text \<open>
  \<^verbatim>\<open>JSONDecodeError m\<close>, \<^verbatim>\<open>RuntimeError m\<close> and \<^verbatim>\<open>ClientError m\<close> carry their message.
  \<^verbatim>\<open>AttributeError t a\<close> is raised by reading attribute \<^verbatim>\<open>a\<close> of a value of type
  \<^verbatim>\<open>t\<close>; a \<^verbatim>\<open>TypeError\<close> names the type of the offending value; \<^verbatim>\<open>UnboundLocalError x\<close>
  is a read of the local variable \<^verbatim>\<open>x\<close> before its first assignment;
  \<^verbatim>\<open>ValidationError\<close> is pydantic's; \<^verbatim>\<open>ClientError\<close> stands for every exception that
  the \<^verbatim>\<open>google.genai\<close> client raises (transport, quota, decoding of the downloaded
  bytes).
\<close>

definition bindE :: "exn + 'a \<Rightarrow> ('a \<Rightarrow> exn + 'b) \<Rightarrow> exn + 'b" where
  "bindE m f = (case m of Inl e \<Rightarrow> Inl e | Inr x \<Rightarrow> f x)"

section \<open>Data model\<close>

text \<open>
  The pydantic models of the source. The fields \<^verbatim>\<open>id\<close> and \<^verbatim>\<open>text\<close> of
  \<^verbatim>\<open>CommentInput\<close> are \<open>comment_id\<close> and \<open>comment_text\<close> here, those of
  \<^verbatim>\<open>AnalyzedComment\<close> are \<open>result_id\<close> and \<open>result_text\<close>.
\<close>

record ToxicityAnalysis =
  toxicity :: pyfloat
  severe_toxicity :: pyfloat
  obscene :: pyfloat
  threat :: pyfloat
  insult :: pyfloat
  identity_attack :: pyfloat
  sexual_explicit :: pyfloat
  deciding_fragments :: "string list"
  justification :: string

record CommentInput =
  comment_id :: string
  comment_text :: string

record AnalyzedComment =
  result_id :: string
  result_text :: string
  analysis :: "ToxicityAnalysis option"
  error :: "string option"

record BatchResponse =
  results :: "AnalyzedComment list"
  total_processed :: nat
  status :: string

section \<open>The libraries the code calls\<close>

text \<open>
  What the standard library and pydantic compute is a parameter of the model:
  \<^item> \<open>json_loads\<close> is \<^verbatim>\<open>json.loads\<close>; \<open>Inl m\<close> is a \<^verbatim>\<open>JSONDecodeError\<close> with message \<open>m\<close>;
  \<^item> \<open>json_dumps\<close> is \<^verbatim>\<open>json.dumps\<close>;
  \<^item> \<open>py_repr\<close> is \<^verbatim>\<open>str\<close> on a value that is not a string;
  \<^item> \<open>exn_text\<close> is \<^verbatim>\<open>str(e)\<close> for an exception raised by the interpreter or by pydantic;
  \<^item> \<open>model_validate\<close> is pydantic's validation of a value for the field
    \<^verbatim>\<open>analysis: ToxicityAnalysis | None\<close>, \<open>None\<close> when it raises \<^verbatim>\<open>ValidationError\<close>;
  \<^item> \<open>model_json_schema\<close> is \<^verbatim>\<open>ToxicityAnalysis.model_json_schema()\<close>.
\<close>

record pylib =
  json_loads :: "string \<Rightarrow> string + json"
  json_dumps :: "json \<Rightarrow> string"
  py_repr :: "json \<Rightarrow> string"
  exn_text :: "exn \<Rightarrow> string"
  model_validate :: "json \<Rightarrow> ToxicityAnalysis option"
  model_json_schema :: json

fun py_str :: "pylib \<Rightarrow> json \<Rightarrow> string" where
  "py_str lib (JStr s) = s"
| "py_str lib v = py_repr lib v"

fun str_exn :: "pylib \<Rightarrow> exn \<Rightarrow> string" where
  "str_exn lib (JSONDecodeError m) = m"
| "str_exn lib (RuntimeError m) = m"
| "str_exn lib (ClientError m) = m"
| "str_exn lib e = exn_text lib e"

definition loads :: "pylib \<Rightarrow> string \<Rightarrow> exn + json" where
  "loads lib s = (case json_loads lib s of Inl m \<Rightarrow> Inl (JSONDecodeError m) | Inr v \<Rightarrow> Inr v)"

section \<open>Operations of the interpreter\<close>

text \<open>\<^verbatim>\<open>d.get(k, dflt)\<close>: only a dictionary has the method.\<close>

fun dict_get :: "json \<Rightarrow> string \<Rightarrow> json \<Rightarrow> exn + json" where
  "dict_get (JObj kvs) k dflt = Inr (case map_of kvs k of Some v \<Rightarrow> v | None \<Rightarrow> dflt)"
| "dict_get v k dflt = Inl (AttributeError (type_name v) ''get'')"

text \<open>
  \<^verbatim>\<open>v[0]\<close>: the first element of a list, the first character of a string, a
  \<^verbatim>\<open>KeyError\<close> on a dictionary (its keys are strings), a \<^verbatim>\<open>TypeError\<close> elsewhere.
\<close>

fun index0 :: "json \<Rightarrow> exn + json" where
  "index0 (JArr (x # xs)) = Inr x"
| "index0 (JArr []) = Inl IndexError"
| "index0 (JStr (c # cs)) = Inr (JStr [c])"
| "index0 (JStr []) = Inl IndexError"
| "index0 (JObj kvs) = Inl (KeyError (JInt 0))"
| "index0 v = Inl (TypeError (NotSubscriptable (type_name v)))"

text \<open>\<^verbatim>\<open>s.startswith(p)\<close> and \<^verbatim>\<open>p in s\<close> on strings.\<close>

fun starts_with :: "string \<Rightarrow> string \<Rightarrow> bool" where
  "starts_with s [] = True"
| "starts_with [] (p # ps) = False"
| "starts_with (c # cs) (p # ps) = (c = p \<and> starts_with cs ps)"

fun is_substring :: "string \<Rightarrow> string \<Rightarrow> bool" where
  "is_substring p [] = (p = [])"
| "is_substring p (c # cs) = (starts_with (c # cs) p \<or> is_substring p cs)"

text \<open>
  \<^verbatim>\<open>k in v\<close> for a string \<^verbatim>\<open>k\<close>: a key of a dictionary, an element of a list, a
  substring of a string; a number or a boolean is not iterable.
\<close>

fun py_contains :: "json \<Rightarrow> string \<Rightarrow> exn + bool" where
  "py_contains (JObj kvs) k = Inr (k \<in> set (map fst kvs))"
| "py_contains (JArr xs) k = Inr (JStr k \<in> set xs)"
| "py_contains (JStr s) k = Inr (is_substring k s)"
| "py_contains v k = Inl (TypeError (NotIterable (type_name v)))"

text \<open>\<^verbatim>\<open>s.replace(pat, "")\<close>: every occurrence of \<^verbatim>\<open>pat\<close>, left to right, is removed.\<close>

function remove_all :: "string \<Rightarrow> string \<Rightarrow> string" where
  "remove_all pat [] = []"
| "remove_all pat (c # cs) =
     (if pat \<noteq> [] \<and> starts_with (c # cs) pat
      then remove_all pat (drop (length pat) (c # cs))
      else c # remove_all pat cs)"
  by pat_completeness auto
termination
  by (relation "measure (\<lambda>(pat, s). length s)") auto

text \<open>
  \<^verbatim>\<open>s.strip()\<close>: the characters that \<^verbatim>\<open>str.isspace\<close> accepts are removed from both
  ends. \<^verbatim>\<open>s.split("\n")\<close>: the pieces between line feeds, empty pieces kept.
\<close>

definition is_space :: "char \<Rightarrow> bool" where
  "is_space c = (of_char c \<in> {9, 10, 11, 12, 13, 28, 29, 30, 31, 32, 133, 160 :: nat})"

definition strip :: "string \<Rightarrow> string" where
  "strip s = rev (dropWhile is_space (rev (dropWhile is_space s)))"

fun cons_first :: "char \<Rightarrow> string list \<Rightarrow> string list" where
  "cons_first c [] = [[c]]"
| "cons_first c (piece # pieces) = (c # piece) # pieces"

fun split_nl :: "string \<Rightarrow> string list" where
  "split_nl [] = [[]]"
| "split_nl (c # cs) =
     (if c = CHR 0x0A then [] # split_nl cs else cons_first c (split_nl cs))"

text \<open>
  \<^verbatim>\<open>d[k] = v\<close> on a dictionary: a list or a dictionary is not hashable. Keys are compared
  as values of \<open>json\<close>; the code reads the dictionary at string keys only, and a string
  equals no value of another type.
\<close>

fun hashable :: "json \<Rightarrow> bool" where
  "hashable (JArr xs) = False"
| "hashable (JObj kvs) = False"
| "hashable v = True"

definition set_item :: "(json \<rightharpoonup> json) \<Rightarrow> json \<Rightarrow> json \<Rightarrow> exn + (json \<rightharpoonup> json)" where
  "set_item d k v =
     (if hashable k then Inr (d(k \<mapsto> v)) else Inl (TypeError (Unhashable (type_name k))))"

section \<open>The result reconciler: \<^verbatim>\<open>parse_results\<close>\<close>

text \<open>
  The text of the model's answer, cleaned of markdown fences
  (\<^verbatim>\<open>raw_json_text.replace("```json", "").replace("```", "").strip()\<close>).
\<close>

fun clean_text :: "json \<Rightarrow> exn + string" where
  "clean_text (JStr s) = Inr (strip (remove_all ''```'' (remove_all ''```json'' s)))"
| "clean_text v = Inl (AttributeError (type_name v) ''replace'')"

text \<open>The error entry \<^verbatim>\<open>{"error": msg}\<close> of \<^verbatim>\<open>results_map\<close>.\<close>

definition error_entry :: "string \<Rightarrow> json" where
  "error_entry msg = JObj [(''error'', JStr msg)]"

text \<open>
  The statements of the \<^verbatim>\<open>try\<close> block that follow the assignment of \<^verbatim>\<open>custom_id\<close>: they
  end by storing one entry under \<^verbatim>\<open>custom_id\<close>, or raise.
\<close>

definition store_outcome ::
  "pylib \<Rightarrow> json \<Rightarrow> json \<Rightarrow> (json \<rightharpoonup> json) \<Rightarrow> exn + (json \<rightharpoonup> json)" where
  "store_outcome lib item custom_id results_map =
     bindE (dict_get item ''response'' (JObj [])) (\<lambda>response_data.
     bindE (dict_get response_data ''candidates'' (JArr [])) (\<lambda>candidates.
       if truthy candidates then
         bindE (index0 candidates) (\<lambda>candidate.
         bindE (dict_get candidate ''content'' (JObj [])) (\<lambda>content.
         bindE (dict_get content ''parts'' (JArr [])) (\<lambda>parts.
           if truthy parts then
             bindE (index0 parts) (\<lambda>part.
             bindE (dict_get part ''text'' (JStr ''{}'')) (\<lambda>raw.
             bindE (clean_text raw) (\<lambda>raw_json_text.
             bindE (loads lib raw_json_text) (\<lambda>analysis_data.
               set_item results_map custom_id analysis_data))))
           else set_item results_map custom_id (error_entry ''Empty parts in response''))))
       else
         bindE (dict_get response_data ''error'' (JStr ''No candidates returned'')) (\<lambda>error_info.
           set_item results_map custom_id (error_entry (py_str lib error_info)))))"

text \<open>
  The locals that live across iterations of the loop over the lines: \<^verbatim>\<open>custom_id\<close>
  (\<open>None\<close> while it is unbound) and \<^verbatim>\<open>results_map\<close>.
\<close>

record loop_state =
  custom_id :: "json option"
  results_map :: "json \<rightharpoonup> json"

text \<open>
  The \<^verbatim>\<open>try\<close> block on one line: the value of \<^verbatim>\<open>custom_id\<close> when the block is left, and
  the new \<^verbatim>\<open>results_map\<close> or the exception raised. \<^verbatim>\<open>custom_id\<close> is assigned only
  after \<^verbatim>\<open>json.loads(line)\<close> has returned a dictionary.
\<close>

definition try_block :: "pylib \<Rightarrow> loop_state \<Rightarrow> string \<Rightarrow> json option \<times> (exn + (json \<rightharpoonup> json))" where
  "try_block lib st line =
     (case loads lib line of
        Inl e \<Rightarrow> (custom_id st, Inl e)
      | Inr item \<Rightarrow>
          (case dict_get item ''custom_id'' JNull of
             Inl e \<Rightarrow> (custom_id st, Inl e)
           | Inr cid \<Rightarrow> (Some cid, store_outcome lib item cid (results_map st))))"

text \<open>
  The handler \<^verbatim>\<open>except Exception as e\<close>: it reads \<^verbatim>\<open>custom_id\<close>, and stores
  \<^verbatim>\<open>{"error": str(e)}\<close> under it when it is true.
\<close>

definition handler :: "pylib \<Rightarrow> json option \<Rightarrow> (json \<rightharpoonup> json) \<Rightarrow> exn \<Rightarrow> exn + loop_state" where
  "handler lib cid rm e =
     (case cid of
        None \<Rightarrow> Inl (UnboundLocalError ''custom_id'')
      | Some c \<Rightarrow>
          if truthy c
          then bindE (set_item rm c (error_entry (str_exn lib e)))
                 (\<lambda>rm'. Inr \<lparr>custom_id = cid, results_map = rm'\<rparr>)
          else Inr \<lparr>custom_id = cid, results_map = rm\<rparr>)"

text \<open>One iteration of the loop: an empty line is skipped.\<close>

definition process_line :: "pylib \<Rightarrow> loop_state \<Rightarrow> string \<Rightarrow> exn + loop_state" where
  "process_line lib st line =
     (if line = [] then Inr st
      else
        (case try_block lib st line of
           (cid, Inr rm) \<Rightarrow> Inr \<lparr>custom_id = cid, results_map = rm\<rparr>
         | (cid, Inl e) \<Rightarrow> handler lib cid (results_map st) e))"

fun process_lines :: "pylib \<Rightarrow> loop_state \<Rightarrow> string list \<Rightarrow> exn + loop_state" where
  "process_lines lib st [] = Inr st"
| "process_lines lib st (line # rest) =
     (case process_line lib st line of
        Inl e \<Rightarrow> Inl e
      | Inr st' \<Rightarrow> process_lines lib st' rest)"

text \<open>The merge loop over \<^verbatim>\<open>original_map.items()\<close>.\<close>

definition no_result :: string where
  "no_result = ''No result found (Job failed or ID mismatch)''"

definition merge_item :: "pylib \<Rightarrow> (json \<rightharpoonup> json) \<Rightarrow> string \<times> string \<Rightarrow> exn + AnalyzedComment" where
  "merge_item lib rm entry =
     (case entry of (cid, text) \<Rightarrow>
        (let result = (case rm (JStr cid) of Some v \<Rightarrow> v | None \<Rightarrow> JNull) in
         if truthy result then
           bindE (py_contains result ''error'') (\<lambda>has_error.
             if \<not> has_error then
               (case model_validate lib result of
                  Some a \<Rightarrow> Inr \<lparr>result_id = cid, result_text = text, analysis = Some a, error = None\<rparr>
                | None \<Rightarrow> Inl ValidationError)
             else
               bindE (dict_get result ''error'' JNull) (\<lambda>error_msg.
                 Inr \<lparr>result_id = cid, result_text = text, analysis = None,
                      error = Some (py_str lib error_msg)\<rparr>))
         else Inr \<lparr>result_id = cid, result_text = text, analysis = None, error = Some no_result\<rparr>))"

fun merge_results :: "pylib \<Rightarrow> (json \<rightharpoonup> json) \<Rightarrow> (string \<times> string) list \<Rightarrow> exn + AnalyzedComment list" where
  "merge_results lib rm [] = Inr []"
| "merge_results lib rm (entry # rest) =
     (case merge_item lib rm entry of
        Inl e \<Rightarrow> Inl e
      | Inr a \<Rightarrow>
          (case merge_results lib rm rest of
             Inl e \<Rightarrow> Inl e
           | Inr out \<Rightarrow> Inr (a # out)))"

text \<open>
  \<open>reconcile\<close> is \<^verbatim>\<open>parse_results\<close> from the decoded text on: the loop over the lines of
  \<^verbatim>\<open>text_content.strip().split("\n")\<close>, then the merge. \<open>parse_results\<close> downloads and
  decodes the output file first; \<open>download\<close> is the client's answer for a file name.
\<close>

definition initial_state :: loop_state where
  "initial_state = \<lparr>custom_id = None, results_map = Map.empty\<rparr>"

definition reconcile :: "pylib \<Rightarrow> string \<Rightarrow> (string \<times> string) list \<Rightarrow> exn + AnalyzedComment list" where
  "reconcile lib text_content original_map =
     (case process_lines lib initial_state (split_nl (strip text_content)) of
        Inl e \<Rightarrow> Inl e
      | Inr st \<Rightarrow> merge_results lib (results_map st) original_map)"

definition parse_results ::
  "pylib \<Rightarrow> (string \<Rightarrow> exn + string) \<Rightarrow> string \<Rightarrow> (string \<times> string) list \<Rightarrow> exn + AnalyzedComment list" where
  "parse_results lib download output_file_name original_map =
     (case download output_file_name of
        Inl e \<Rightarrow> Inl e
      | Inr text_content \<Rightarrow> reconcile lib text_content original_map)"

text \<open>
  A line of the output document is attributable to the input id \<open>cid\<close> when it decodes
  to a dictionary whose \<^verbatim>\<open>custom_id\<close> is the string \<open>cid\<close>.
\<close>

definition carries_id :: "pylib \<Rightarrow> string \<Rightarrow> string \<Rightarrow> bool" where
  "carries_id lib cid line =
     (case json_loads lib line of
        Inl m \<Rightarrow> False
      | Inr item \<Rightarrow>
          (case item of
             JObj kvs \<Rightarrow> map_of kvs ''custom_id'' = Some (JStr cid)
           | _ \<Rightarrow> False))"

text \<open>
  The value that the merge loop reads for an input id, \<^verbatim>\<open>results_map.get(cid)\<close> after the
  loop over the lines of the document \<open>text_content\<close>: \<^verbatim>\<open>None\<close> when nothing is stored
  under the id (and when the loop over the lines raises, where the merge loop is not
  reached).
\<close>

definition stored_result :: "pylib \<Rightarrow> string \<Rightarrow> string \<Rightarrow> json" where
  "stored_result lib text_content cid =
     (case process_lines lib initial_state (split_nl (strip text_content)) of
        Inl e \<Rightarrow> JNull
      | Inr st \<Rightarrow> (case results_map st (JStr cid) of None \<Rightarrow> JNull | Some v \<Rightarrow> v))"

text \<open>
  A line is well formed when it decodes to a dictionary whose \<^verbatim>\<open>custom_id\<close> (\<^verbatim>\<open>None\<close>
  when the key is absent) can be a key of \<^verbatim>\<open>results_map\<close>. A stored value is usable by
  the merge loop when it is false, or a dictionary that holds the key \<^verbatim>\<open>error\<close> or passes
  the validation of \<^verbatim>\<open>ToxicityAnalysis\<close>.
\<close>

definition well_formed_line :: "pylib \<Rightarrow> string \<Rightarrow> bool" where
  "well_formed_line lib line =
     (case json_loads lib line of
        Inl m \<Rightarrow> False
      | Inr item \<Rightarrow>
          (case item of
             JObj kvs \<Rightarrow> hashable (case map_of kvs ''custom_id'' of None \<Rightarrow> JNull | Some c \<Rightarrow> c)
           | _ \<Rightarrow> False))"

definition usable :: "pylib \<Rightarrow> json \<Rightarrow> bool" where
  "usable lib v =
     (if truthy v
      then (case v of
              JObj kvs \<Rightarrow> ''error'' \<in> set (map fst kvs) \<or> model_validate lib v \<noteq> None
            | _ \<Rightarrow> False)
      else True)"

section \<open>The payload encoder: \<^verbatim>\<open>create_jsonl_content\<close>\<close>

definition MODEL_ID :: string where
  "MODEL_ID = ''gemini-3-flash-preview''"

text \<open>The f-string of the prompt: the comment's text between two fixed pieces.\<close>

definition prompt_prefix :: string where
  "prompt_prefix = ''Analyze toxicity for: \"''"

definition prompt_suffix :: string where
  "prompt_suffix =
     ''\". Return JSON based on schema. Justification in text'' @ [CHR 0x27] @ ''s original language.''"

definition prompt_text :: "string \<Rightarrow> string" where
  "prompt_text text = prompt_prefix @ text @ prompt_suffix"

text \<open>
  The request object of one comment; \<open>schema_dict\<close> is the JSON schema of
  \<^verbatim>\<open>ToxicityAnalysis\<close>, computed once before the loop.
\<close>

definition request_body :: "json \<Rightarrow> CommentInput \<Rightarrow> json" where
  "request_body schema_dict comment =
     JObj [
       (''custom_id'', JStr (comment_id comment)),
       (''method'', JStr ''models.generateContent''),
       (''request'', JObj [
          (''model'', JStr (''models/'' @ MODEL_ID)),
          (''contents'', JArr [JObj [(''parts'', JArr [JObj [(''text'', JStr (prompt_text (comment_text comment)))]])]]),
          (''generationConfig'', JObj [
             (''temperature'', JFloat (Finite 0)),
             (''response_mime_type'', JStr ''application/json''),
             (''response_json_schema'', schema_dict)])])]"

text \<open>\<^verbatim>\<open>"\n".join(lines)\<close>.\<close>

fun join_nl :: "string list \<Rightarrow> string" where
  "join_nl [] = []"
| "join_nl [l] = l"
| "join_nl (l # m # ls) = l @ CHR 0x0A # join_nl (m # ls)"

definition create_jsonl_content :: "pylib \<Rightarrow> CommentInput list \<Rightarrow> string" where
  "create_jsonl_content lib comments =
     (let schema_dict = model_json_schema lib
      in join_nl (map (\<lambda>comment. json_dumps lib (request_body schema_dict comment)) comments))"

text \<open>
  Reading a request object as the backend does: \<open>Key k\<close> is \<^verbatim>\<open>v[k]\<close> on a dictionary,
  \<open>First\<close> is \<^verbatim>\<open>v[0]\<close>.
\<close>

datatype selector = Key string | First

fun select :: "json \<Rightarrow> selector list \<Rightarrow> exn + json" where
  "select v [] = Inr v"
| "select v (First # path) = bindE (index0 v) (\<lambda>x. select x path)"
| "select v (Key k # path) =
     (case v of
        JObj kvs \<Rightarrow>
          (case map_of kvs k of
             None \<Rightarrow> Inl (KeyError (JStr k))
           | Some x \<Rightarrow> select x path)
      | _ \<Rightarrow> Inl (TypeError (NotSubscriptable (type_name v))))"

section \<open>The backend and the local files\<close>

text \<open>
  The state outside the process: the local files (path to content) and the calls made
  to the \<^verbatim>\<open>google.genai\<close> client so far, in order.
\<close>

datatype call =
    FilesUpload string
  | FilesGet string
  | BatchesCreate string string
  | BatchesGet string
  | FilesDownload string

record world =
  files :: "string \<rightharpoonup> string"
  calls :: "call list"

definition log_call :: "call \<Rightarrow> world \<Rightarrow> world" where
  "log_call c w = w\<lparr>calls := calls w @ [c]\<rparr>"

text \<open>
  What the code reads of the objects the client returns: \<^verbatim>\<open>name\<close> and \<^verbatim>\<open>state.name\<close>
  of an uploaded file; \<^verbatim>\<open>state.name\<close>, \<^verbatim>\<open>dest.file_name\<close> and \<^verbatim>\<open>str(error)\<close> of a job.
\<close>

record file_obj =
  file_name :: string
  file_state :: string

record job_obj =
  job_state :: string
  dest_file_name :: string
  job_error :: string

text \<open>
  The backend is scripted: the answer to the upload, the successive answers of
  \<^verbatim>\<open>client.files.get\<close>, the answer to \<^verbatim>\<open>client.batches.create\<close> (the job's name), the
  successive answers of \<^verbatim>\<open>client.batches.get\<close>, and the decoded content of a
  downloaded file. \<open>Inl e\<close> is a call that raises \<open>e\<close>.
\<close>

record client =
  upload_reply :: "exn + file_obj"
  files_get_replies :: "(exn + file_obj) list"
  batches_create_reply :: "exn + string"
  batches_get_replies :: "(exn + job_obj) list"
  download_reply :: "string \<Rightarrow> exn + string"

section \<open>Submission and polling: \<^verbatim>\<open>run_google_batch_process\<close>\<close>

text \<open>
  The loop that waits while the uploaded file is in \<^verbatim>\<open>STATE_PROCESSING\<close>. \<open>None\<close>: the
  script of answers is used up and the loop is still waiting.
\<close>

fun wait_for_file :: "file_obj \<Rightarrow> (exn + file_obj) list \<Rightarrow> world \<Rightarrow> ((exn + file_obj) \<times> world) option" where
  "wait_for_file f [] w =
     (if file_state f = ''STATE_PROCESSING'' then None else Some (Inr f, w))"
| "wait_for_file f (reply # rest) w =
     (if file_state f = ''STATE_PROCESSING'' then
        (case reply of
           Inl e \<Rightarrow> Some (Inl e, log_call (FilesGet (file_name f)) w)
         | Inr f' \<Rightarrow> wait_for_file f' rest (log_call (FilesGet (file_name f)) w))
      else Some (Inr f, w))"

text \<open>
  The polling loop \<^verbatim>\<open>while True\<close> on the job \<open>job\<close>, fed the successive answers of
  \<^verbatim>\<open>client.batches.get\<close>. \<open>None\<close>: every answer of the script was consumed and none
  ended the loop.
\<close>

fun poll :: "string \<Rightarrow> (exn + job_obj) list \<Rightarrow> world \<Rightarrow> ((exn + string) \<times> world) option" where
  "poll job [] w = None"
| "poll job (reply # rest) w =
     (case reply of
        Inl e \<Rightarrow> Some (Inl e, log_call (BatchesGet job) w)
      | Inr job_status \<Rightarrow>
          if job_state job_status = ''JOB_STATE_SUCCEEDED''
          then Some (Inr (dest_file_name job_status), log_call (BatchesGet job) w)
          else if job_state job_status = ''JOB_STATE_FAILED''
          then Some (Inl (RuntimeError (''Batch Job Failed: '' @ job_error job_status)),
                     log_call (BatchesGet job) w)
          else if job_state job_status \<in> set [''JOB_STATE_CANCELLED'', ''JOB_STATE_EXPIRED'']
          then Some (Inl (RuntimeError (''Batch Job Stopped: '' @ job_state job_status)),
                     log_call (BatchesGet job) w)
          else poll job rest (log_call (BatchesGet job) w))"

definition run_google_batch_process :: "client \<Rightarrow> string \<Rightarrow> world \<Rightarrow> ((exn + string) \<times> world) option" where
  "run_google_batch_process cl jsonl_file_path w =
     (case upload_reply cl of
        Inl e \<Rightarrow> Some (Inl e, log_call (FilesUpload jsonl_file_path) w)
      | Inr uploaded \<Rightarrow>
          (case wait_for_file uploaded (files_get_replies cl) (log_call (FilesUpload jsonl_file_path) w) of
             None \<Rightarrow> None
           | Some (Inl e, w') \<Rightarrow> Some (Inl e, w')
           | Some (Inr batch_input_file, w') \<Rightarrow>
               (case batches_create_reply cl of
                  Inl e \<Rightarrow> Some (Inl e, log_call (BatchesCreate MODEL_ID (file_name batch_input_file)) w')
                | Inr job \<Rightarrow>
                    poll job (batches_get_replies cl)
                      (log_call (BatchesCreate MODEL_ID (file_name batch_input_file)) w'))))"

section \<open>The endpoint: \<^verbatim>\<open>analyze_batch_endpoint\<close>\<close>

datatype http_error = HTTPException nat string

text \<open>
  \<^verbatim>\<open>{c.id: c.text for c in request.comments}\<close>: a dictionary keeps the position of the
  first insertion of a key and the value of the last.
\<close>

definition original_map_of :: "CommentInput list \<Rightarrow> (string \<times> string) list" where
  "original_map_of comments =
     foldl (\<lambda>m c. AList.update (comment_id c) (comment_text c) m) [] comments"

text \<open>
  The body of the \<^verbatim>\<open>try\<close> statement: the batch process, then the reconciliation of its
  output file, then the response.
\<close>

definition try_pipeline ::
  "pylib \<Rightarrow> client \<Rightarrow> string \<Rightarrow> (string \<times> string) list \<Rightarrow> world \<Rightarrow> ((exn + BatchResponse) \<times> world) option" where
  "try_pipeline lib cl temp_file_path original_map w =
     (case run_google_batch_process cl temp_file_path w of
        None \<Rightarrow> None
      | Some (Inl e, w') \<Rightarrow> Some (Inl e, w')
      | Some (Inr output_file_name, w') \<Rightarrow>
          Some (case parse_results lib (download_reply cl) output_file_name original_map of
                  Inl e \<Rightarrow> Inl e
                | Inr rs \<Rightarrow> Inr \<lparr>results = rs, total_processed = length rs, status = ''completed''\<rparr>,
                log_call (FilesDownload output_file_name) w'))"

text \<open>
  The endpoint, on the request's comments. \<open>temp_file_path\<close> is the name that
  \<^verbatim>\<open>tempfile.NamedTemporaryFile\<close> gives the request file. The \<^verbatim>\<open>except\<close> clause turns
  an exception of the \<^verbatim>\<open>try\<close> body into \<^verbatim>\<open>HTTPException(500, str(e))\<close>; the \<^verbatim>\<open>finally\<close>
  clause removes the file. \<open>None\<close>: the endpoint is still waiting for the backend.
\<close>

definition analyze_batch_endpoint ::
  "pylib \<Rightarrow> client \<Rightarrow> string \<Rightarrow> CommentInput list \<Rightarrow> world \<Rightarrow> ((http_error + BatchResponse) \<times> world) option" where
  "analyze_batch_endpoint lib cl temp_file_path comments w =
     (if comments = [] then Some (Inl (HTTPException 400 ''Lista komentarzy jest pusta.''), w)
      else
        (case try_pipeline lib cl temp_file_path (original_map_of comments)
                (w\<lparr>files := (files w)(temp_file_path \<mapsto> create_jsonl_content lib comments)\<rparr>) of
           None \<Rightarrow> None
         | Some (r, w') \<Rightarrow>
             Some (case r of
                     Inl e \<Rightarrow> Inl (HTTPException 500 (str_exn lib e))
                   | Inr response \<Rightarrow> Inr response,
                   w'\<lparr>files := (files w')(temp_file_path := None)\<rparr>)))"

section \<open>A sample run\<close>

text \<open>
  The inputs of the end-to-end example: two comments, and an output document of the
  backend. \<open>payload_a\<close> is the JSON text of the model's answer for comment \<^verbatim>\<open>a\<close>,
  \<open>line_a\<close> the line of the output document that carries it, \<open>line_b\<close> a line with
  the same answer for comment \<^verbatim>\<open>b\<close>, \<open>line_a5\<close> a line whose
  answer is the JSON text \<^verbatim>\<open>5\<close>, \<open>line_a_partial\<close> a line whose answer is an object
  with one of the nine fields, and \<open>line_bad\<close> a line that is not JSON.
\<close>

definition comment_a :: CommentInput where
  "comment_a = \<lparr>comment_id = ''a'', comment_text = ''You are useless''\<rparr>"

definition comment_b :: CommentInput where
  "comment_b = \<lparr>comment_id = ''b'', comment_text = ''Nice weather today''\<rparr>"

definition comment_a2 :: CommentInput where
  "comment_a2 = \<lparr>comment_id = ''a'', comment_text = ''Nice weather today''\<rparr>"

definition payload_a :: string where
  "payload_a = ''{\"toxicity\": 0.9, \"severe_toxicity\": 0.1, \"obscene\": 0.2, \"threat\": 0.0, \"insult\": 0.8, \"identity_attack\": 0.0, \"sexual_explicit\": 0.0, \"deciding_fragments\": [\"useless\"], \"justification\": \"Insult.\"}''"

text \<open>
  A line of the output document for the correlation id \<open>cid\<close> whose first candidate's
  first part holds the text \<open>answer\<close>; inside the JSON string a double quote and a
  backslash are escaped by a backslash.
\<close>

fun escape :: "string \<Rightarrow> string" where
  "escape [] = []"
| "escape (c # cs) =
     (if c = CHR 0x22 \<or> c = CHR 0x5C then CHR 0x5C # c # escape cs else c # escape cs)"

definition output_line :: "string \<Rightarrow> string \<Rightarrow> string" where
  "output_line cid answer =
     ''{\"custom_id\": \"'' @ cid @
     ''\", \"response\": {\"candidates\": [{\"content\": {\"parts\": [{\"text\": \"'' @
     escape answer @ ''\"}]}}]}}''"

definition line_a :: string where
  "line_a = output_line ''a'' payload_a"

definition line_b :: string where
  "line_b = output_line ''b'' payload_a"

definition line_a5 :: string where
  "line_a5 = output_line ''a'' ''5''"

definition payload_partial :: string where
  "payload_partial = ''{\"toxicity\": 0.9}''"

definition line_a_partial :: string where
  "line_a_partial = output_line ''a'' payload_partial"

definition line_bad :: string where
  "line_bad = ''not json''"

text \<open>The values that \<^verbatim>\<open>json.loads\<close> returns for these texts.\<close>

definition analysis_json_a :: json where
  "analysis_json_a =
     JObj [
       (''toxicity'', JFloat (Finite (9 / 10))),
       (''severe_toxicity'', JFloat (Finite (1 / 10))),
       (''obscene'', JFloat (Finite (2 / 10))),
       (''threat'', JFloat (Finite 0)),
       (''insult'', JFloat (Finite (8 / 10))),
       (''identity_attack'', JFloat (Finite 0)),
       (''sexual_explicit'', JFloat (Finite 0)),
       (''deciding_fragments'', JArr [JStr ''useless'']),
       (''justification'', JStr ''Insult.'')]"

definition output_item :: "string \<Rightarrow> string \<Rightarrow> json" where
  "output_item cid answer =
     JObj [
       (''custom_id'', JStr cid),
       (''response'', JObj [
          (''candidates'', JArr [
             JObj [(''content'', JObj [(''parts'', JArr [JObj [(''text'', JStr answer)]])])]])])]"

definition sample_loads :: "string \<Rightarrow> string + json" where
  "sample_loads s =
     (if s = line_a then Inr (output_item ''a'' payload_a)
      else if s = line_b then Inr (output_item ''b'' payload_a)
      else if s = line_a5 then Inr (output_item ''a'' ''5'')
      else if s = line_a_partial then Inr (output_item ''a'' payload_partial)
      else if s = payload_a then Inr analysis_json_a
      else if s = payload_partial then Inr (JObj [(''toxicity'', JFloat (Finite (9 / 10)))])
      else if s = ''5'' then Inr (JInt 5)
      else Inl ''Expecting value: line 1 column 1 (char 0)'')"

text \<open>
  A validation of the model's answer that accepts a dictionary holding the nine
  fields of \<^verbatim>\<open>ToxicityAnalysis\<close>, each of its declared type.
\<close>

fun as_float :: "json \<Rightarrow> pyfloat option" where
  "as_float (JFloat f) = Some f"
| "as_float (JInt i) = Some (Finite (of_int i))"
| "as_float v = None"

fun as_string :: "json \<Rightarrow> string option" where
  "as_string (JStr s) = Some s"
| "as_string v = None"

fun as_strings :: "json list \<Rightarrow> string list option" where
  "as_strings [] = Some []"
| "as_strings (JStr s # vs) = map_option (Cons s) (as_strings vs)"
| "as_strings (v # vs) = None"

fun as_string_list :: "json \<Rightarrow> string list option" where
  "as_string_list (JArr vs) = as_strings vs"
| "as_string_list v = None"

definition field :: "(string \<times> json) list \<Rightarrow> string \<Rightarrow> (json \<Rightarrow> 'a option) \<Rightarrow> 'a option" where
  "field kvs k conv = Option.bind (map_of kvs k) conv"

fun sample_validate :: "json \<Rightarrow> ToxicityAnalysis option" where
  "sample_validate (JObj kvs) =
     Option.bind (field kvs ''toxicity'' as_float) (\<lambda>f1.
     Option.bind (field kvs ''severe_toxicity'' as_float) (\<lambda>f2.
     Option.bind (field kvs ''obscene'' as_float) (\<lambda>f3.
     Option.bind (field kvs ''threat'' as_float) (\<lambda>f4.
     Option.bind (field kvs ''insult'' as_float) (\<lambda>f5.
     Option.bind (field kvs ''identity_attack'' as_float) (\<lambda>f6.
     Option.bind (field kvs ''sexual_explicit'' as_float) (\<lambda>f7.
     Option.bind (field kvs ''deciding_fragments'' as_string_list) (\<lambda>fragments.
     Option.bind (field kvs ''justification'' as_string) (\<lambda>why.
       Some \<lparr>toxicity = f1, severe_toxicity = f2, obscene = f3, threat = f4, insult = f5,
             identity_attack = f6, sexual_explicit = f7, deciding_fragments = fragments,
             justification = why\<rparr>)))))))))"
| "sample_validate v = None"

text \<open>
  The request line that \<^verbatim>\<open>json.dumps\<close> writes for a comment, with a short schema in
  the place of the schema of \<^verbatim>\<open>ToxicityAnalysis\<close>.
\<close>

definition sample_schema :: json where
  "sample_schema = JObj [(''title'', JStr ''ToxicityAnalysis''), (''type'', JStr ''object'')]"

definition request_line :: "CommentInput \<Rightarrow> string" where
  "request_line comment =
     ''{\"custom_id\": \"'' @ comment_id comment @
     ''\", \"method\": \"models.generateContent\", \"request\": {\"model\": \"models/gemini-3-flash-preview\", \"contents\": [{\"parts\": [{\"text\": \"'' @
     escape (prompt_text (comment_text comment)) @
     ''\"}]}], \"generationConfig\": {\"temperature\": 0.0, \"response_mime_type\": \"application/json\", \"response_json_schema\": {\"title\": \"ToxicityAnalysis\", \"type\": \"object\"}}}}''"

definition sample_dumps :: "json \<Rightarrow> string" where
  "sample_dumps v =
     (if v = request_body sample_schema comment_a then request_line comment_a
      else if v = request_body sample_schema comment_b then request_line comment_b
      else if v = request_body sample_schema comment_a2 then request_line comment_a2
      else ''null'')"

definition sample_lib :: pylib where
  "sample_lib =
     \<lparr>json_loads = sample_loads,
      json_dumps = sample_dumps,
      py_repr = type_name,
      exn_text = (\<lambda>e. ''error''),
      model_validate = sample_validate,
      model_json_schema = sample_schema\<rparr>"

definition analysis_a :: ToxicityAnalysis where
  "analysis_a =
     \<lparr>toxicity = Finite (9 / 10), severe_toxicity = Finite (1 / 10), obscene = Finite (2 / 10),
      threat = Finite 0, insult = Finite (8 / 10), identity_attack = Finite 0,
      sexual_explicit = Finite 0, deciding_fragments = [''useless''],
      justification = ''Insult.''\<rparr>"

text \<open>
  A backend that accepts the upload and the job, answers the status query twice with a
  running job and then with a succeeded one, and serves \<open>doc\<close> as the output file.
\<close>

definition job_running :: job_obj where
  "job_running = \<lparr>job_state = ''JOB_STATE_RUNNING'', dest_file_name = [], job_error = []\<rparr>"

definition job_succeeded :: job_obj where
  "job_succeeded =
     \<lparr>job_state = ''JOB_STATE_SUCCEEDED'', dest_file_name = ''files/out1'', job_error = []\<rparr>"

definition job_failed :: job_obj where
  "job_failed = \<lparr>job_state = ''JOB_STATE_FAILED'', dest_file_name = [], job_error = ''quota''\<rparr>"

definition job_cancelled :: job_obj where
  "job_cancelled = \<lparr>job_state = ''JOB_STATE_CANCELLED'', dest_file_name = [], job_error = []\<rparr>"

definition sample_client :: "string \<Rightarrow> client" where
  "sample_client doc =
     \<lparr>upload_reply = Inr \<lparr>file_name = ''files/in1'', file_state = ''ACTIVE''\<rparr>,
      files_get_replies = [],
      batches_create_reply = Inr ''batches/j1'',
      batches_get_replies = [Inr job_running, Inr job_running, Inr job_succeeded],
      download_reply =
        (\<lambda>name. if name = ''files/out1'' then Inr doc else Inl (ClientError ''not found''))\<rparr>"

definition empty_world :: world where
  "empty_world = \<lparr>files = Map.empty, calls = []\<rparr>"

section \<open>The job poller\<close>

text \<open>
  Answers that carry none of the four terminal state names are skipped, one status
  query each.
\<close>

lemma poll_skip:
  "list_all (\<lambda>s. job_state s \<notin> set [''JOB_STATE_SUCCEEDED'', ''JOB_STATE_FAILED'', ''JOB_STATE_CANCELLED'', ''JOB_STATE_EXPIRED'']) pre \<Longrightarrow>
   poll job (map Inr pre @ rest) w =
   poll job rest (w\<lparr>calls := calls w @ replicate (length pre) (BatchesGet job)\<rparr>)"
proof (induction pre arbitrary: w)
  case Nil
  then show ?case by simp
next
  case (Cons s pre)
  then show ?case by (simp add: log_call_def replicate_append_same)
qed

text \<open>
  C4. Fed a script of job statuses, the poller stops at the first terminal one: at
  \<^verbatim>\<open>JOB_STATE_SUCCEEDED\<close> it returns the job's output file name, at
  \<^verbatim>\<open>JOB_STATE_FAILED\<close> it raises the error "Batch Job Failed" with the backend's error
  detail, at \<^verbatim>\<open>JOB_STATE_CANCELLED\<close> or \<^verbatim>\<open>JOB_STATE_EXPIRED\<close> it raises the error
  "Batch Job Stopped" with the state's name. Every other state name is skipped: on a
  script of such answers alone the poller is still polling when the script ends. One
  status query is made for each answer consumed. The code raises both errors as a
  \<^verbatim>\<open>RuntimeError\<close>, told apart by their message.
\<close>

theorem poll_first_terminal_status:
  assumes "list_all (\<lambda>s. job_state s \<notin> set [''JOB_STATE_SUCCEEDED'', ''JOB_STATE_FAILED'', ''JOB_STATE_CANCELLED'', ''JOB_STATE_EXPIRED'']) pre"
  shows "poll job (map Inr pre) w = None \<and>
    (job_state s = ''JOB_STATE_SUCCEEDED'' \<longrightarrow>
       poll job (map Inr pre @ Inr s # rest) w =
       Some (Inr (dest_file_name s),
             w\<lparr>calls := calls w @ replicate (Suc (length pre)) (BatchesGet job)\<rparr>)) \<and>
    (job_state s = ''JOB_STATE_FAILED'' \<longrightarrow>
       poll job (map Inr pre @ Inr s # rest) w =
       Some (Inl (RuntimeError (''Batch Job Failed: '' @ job_error s)),
             w\<lparr>calls := calls w @ replicate (Suc (length pre)) (BatchesGet job)\<rparr>)) \<and>
    (job_state s \<in> set [''JOB_STATE_CANCELLED'', ''JOB_STATE_EXPIRED''] \<longrightarrow>
       poll job (map Inr pre @ Inr s # rest) w =
       Some (Inl (RuntimeError (''Batch Job Stopped: '' @ job_state s)),
             w\<lparr>calls := calls w @ replicate (Suc (length pre)) (BatchesGet job)\<rparr>))"
proof -
  have none: "poll job (map Inr pre) w = None"
    using poll_skip [OF assms, of job "[]" w] by simp
  have step: "poll job (map Inr pre @ Inr s # rest) w =
      poll job (Inr s # rest) (w\<lparr>calls := calls w @ replicate (length pre) (BatchesGet job)\<rparr>)"
    by (rule poll_skip [OF assms])
  show ?thesis
    unfolding step using none
    by (auto simp add: log_call_def replicate_append_same)
qed

text \<open>
  The scripts \<^verbatim>\<open>[RUNNING, RUNNING, SUCCEEDED]\<close>, \<^verbatim>\<open>[RUNNING, FAILED]\<close> and
  \<^verbatim>\<open>[RUNNING, CANCELLED]\<close>.
\<close>

theorem poll_first_terminal_status_witness:
  "poll ''batches/j1'' [Inr job_running, Inr job_running] empty_world = None \<and>
   poll ''batches/j1'' [Inr job_running, Inr job_running, Inr job_succeeded] empty_world =
     Some (Inr ''files/out1'', empty_world\<lparr>calls := replicate 3 (BatchesGet ''batches/j1'')\<rparr>) \<and>
   poll ''batches/j1'' [Inr job_running, Inr job_failed] empty_world =
     Some (Inl (RuntimeError ''Batch Job Failed: quota''),
           empty_world\<lparr>calls := replicate 2 (BatchesGet ''batches/j1'')\<rparr>) \<and>
   poll ''batches/j1'' [Inr job_running, Inr job_cancelled] empty_world =
     Some (Inl (RuntimeError ''Batch Job Stopped: JOB_STATE_CANCELLED''),
           empty_world\<lparr>calls := replicate 2 (BatchesGet ''batches/j1'')\<rparr>)"
proof -
  have two: "list_all (\<lambda>s. job_state s \<notin> set [''JOB_STATE_SUCCEEDED'', ''JOB_STATE_FAILED'', ''JOB_STATE_CANCELLED'', ''JOB_STATE_EXPIRED'']) [job_running, job_running]"
    by (simp add: job_running_def)
  have one: "list_all (\<lambda>s. job_state s \<notin> set [''JOB_STATE_SUCCEEDED'', ''JOB_STATE_FAILED'', ''JOB_STATE_CANCELLED'', ''JOB_STATE_EXPIRED'']) [job_running]"
    by (simp add: job_running_def)
  note a = poll_first_terminal_status [OF two, of "''batches/j1''" empty_world job_succeeded "[]"]
  note b = poll_first_terminal_status [OF one, of "''batches/j1''" empty_world job_failed "[]"]
  note c = poll_first_terminal_status [OF one, of "''batches/j1''" empty_world job_cancelled "[]"]
  show ?thesis
    using a b c
    by (simp add: job_succeeded_def job_failed_def job_cancelled_def empty_world_def numeral_3_eq_3 numeral_2_eq_2)
qed

section \<open>The reconciler on malformed documents\<close>

text \<open>
  C2. A line that is not JSON is not isolated from the other lines. The handler of the
  \<^verbatim>\<open>try\<close> block reads \<^verbatim>\<open>custom_id\<close>, which \<^verbatim>\<open>json.loads\<close> did not let the block
  assign: it still holds the id of the line before. With the answer for \<^verbatim>\<open>a\<close> alone in
  the document, \<^verbatim>\<open>a\<close> has its analysis; with a malformed line after it, the analysis of
  \<^verbatim>\<open>a\<close> is replaced by the decoding error of that line; with the malformed line first,
  \<^verbatim>\<open>custom_id\<close> is unbound and the exception leaves the reconciler.
\<close>

theorem malformed_line_not_isolated:
  "reconcile sample_lib line_a (original_map_of [comment_a, comment_b]) =
     Inr [\<lparr>result_id = ''a'', result_text = ''You are useless'', analysis = Some analysis_a, error = None\<rparr>,
          \<lparr>result_id = ''b'', result_text = ''Nice weather today'', analysis = None, error = Some no_result\<rparr>] \<and>
   reconcile sample_lib (line_a @ [CHR 0x0A] @ line_bad) (original_map_of [comment_a, comment_b]) =
     Inr [\<lparr>result_id = ''a'', result_text = ''You are useless'', analysis = None,
           error = Some ''Expecting value: line 1 column 1 (char 0)''\<rparr>,
          \<lparr>result_id = ''b'', result_text = ''Nice weather today'', analysis = None, error = Some no_result\<rparr>] \<and>
   reconcile sample_lib (line_bad @ [CHR 0x0A] @ line_a) (original_map_of [comment_a, comment_b]) =
     Inl (UnboundLocalError ''custom_id'')"
  by code_simp

text \<open>
  C1. An answer that is JSON but no usable analysis is stored as it is by the loop over
  the lines, and the merge loop raises on it: on the number \<^verbatim>\<open>5\<close> the test
  \<^verbatim>\<open>"error" not in analysis\<close> is a \<^verbatim>\<open>TypeError\<close>, on an object that lacks fields of
  \<^verbatim>\<open>ToxicityAnalysis\<close> the constructor of \<^verbatim>\<open>AnalyzedComment\<close> raises pydantic's
  \<^verbatim>\<open>ValidationError\<close>. No list is returned for the two comments; the endpoint answers
  with status 500.
\<close>

theorem unusable_payload_fails_batch:
  "reconcile sample_lib line_a5 (original_map_of [comment_a, comment_b]) =
     Inl (TypeError (NotIterable ''int'')) \<and>
   reconcile sample_lib line_a_partial (original_map_of [comment_a, comment_b]) =
     Inl ValidationError \<and>
   map_option fst (analyze_batch_endpoint sample_lib (sample_client line_a_partial) ''/tmp/req.jsonl''
      [comment_a, comment_b] empty_world) = Some (Inl (HTTPException 500 ''error''))"
  by code_simp

section \<open>The merge loop\<close>

text \<open>With unique ids, \<^verbatim>\<open>original_map\<close> lists the comments in their order.\<close>

lemma update_fresh:
  "k \<notin> fst ` set al \<Longrightarrow> AList.update k v al = al @ [(k, v)]"
  by (induction al) auto

lemma original_map_foldl:
  "distinct (map fst m @ map comment_id cs) \<Longrightarrow>
   foldl (\<lambda>m c. AList.update (comment_id c) (comment_text c) m) m cs =
   m @ map (\<lambda>c. (comment_id c, comment_text c)) cs"
proof (induction cs arbitrary: m)
  case Nil
  then show ?case by simp
next
  case (Cons c cs)
  have fresh: "comment_id c \<notin> fst ` set m"
    using Cons.prems by auto
  have "distinct (map fst (m @ [(comment_id c, comment_text c)]) @ map comment_id cs)"
    using Cons.prems by auto
  from Cons.IH [OF this] show ?case
    by (simp add: update_fresh [OF fresh])
qed

lemma original_map_of_distinct:
  "distinct (map comment_id cs) \<Longrightarrow>
   original_map_of cs = map (\<lambda>c. (comment_id c, comment_text c)) cs"
  unfolding original_map_of_def using original_map_foldl [of "[]" cs] by simp

text \<open>
  The merge loop appends one \<^verbatim>\<open>AnalyzedComment\<close> for each item of \<^verbatim>\<open>original_map\<close>, with
  the item's id and text, and with its analysis or its error.
\<close>

lemma merge_item_fields:
  assumes "merge_item lib rm (cid, text) = Inr a"
  shows "result_id a = cid \<and> result_text a = text"
  using assms
  by (auto simp add: merge_item_def bindE_def Let_def split: sum.splits if_splits option.splits)

lemma merge_item_exactly_one:
  assumes "merge_item lib rm entry = Inr a"
  shows "(analysis a \<noteq> None \<and> error a = None) \<or> (analysis a = None \<and> error a \<noteq> None)"
  using assms
  by (cases entry) (auto simp add: merge_item_def bindE_def Let_def split: sum.splits if_splits option.splits)

lemma merge_results_entries:
  "merge_results lib rm om = Inr out \<Longrightarrow>
   map (\<lambda>a. (result_id a, result_text a)) out = om"
proof (induction om arbitrary: out)
  case Nil
  then show ?case by simp
next
  case (Cons entry om)
  obtain cid body where entry: "entry = (cid, body)" by (cases entry)
  from Cons.prems obtain a rest where
    a: "merge_item lib rm entry = Inr a" and
    rest: "merge_results lib rm om = Inr rest" and
    out: "out = a # rest"
    by (auto split: sum.splits)
  from merge_item_fields [OF a [unfolded entry]] Cons.IH [OF rest] show ?case
    by (simp add: out entry)
qed

lemma merge_results_exactly_one:
  "merge_results lib rm om = Inr out \<Longrightarrow>
   list_all (\<lambda>a. (analysis a \<noteq> None \<and> error a = None) \<or> (analysis a = None \<and> error a \<noteq> None)) out"
proof (induction om arbitrary: out)
  case Nil
  then show ?case by simp
next
  case (Cons entry om)
  from Cons.prems obtain a rest where
    a: "merge_item lib rm entry = Inr a" and
    rest: "merge_results lib rm om = Inr rest" and
    out: "out = a # rest"
    by (auto split: sum.splits)
  from merge_item_exactly_one [OF a] Cons.IH [OF rest] show ?case
    by (simp add: out)
qed

lemma reconcile_merge:
  "reconcile lib text_content om = Inr out \<Longrightarrow>
   \<exists>st. process_lines lib initial_state (split_nl (strip text_content)) = Inr st \<and>
        merge_results lib (results_map st) om = Inr out"
  by (auto simp add: reconcile_def split: sum.splits)

text \<open>
  C5. For comments with unique ids, whenever the reconciler returns its list, the list
  has the length of the input and its i-th entry has the id and the text of the i-th
  comment, whatever the output document of the backend is and in whatever order its
  lines stand.
\<close>

theorem output_follows_input_order:
  assumes "distinct (map comment_id comments)"
      and "reconcile lib text_content (original_map_of comments) = Inr out"
  shows "length out = length comments \<and>
         (\<forall>i < length comments.
            result_id (out ! i) = comment_id (comments ! i) \<and>
            result_text (out ! i) = comment_text (comments ! i))"
proof -
  from reconcile_merge [OF assms(2)] obtain st :: loop_state where
    "merge_results lib (results_map st) (original_map_of comments) = Inr out" by blast
  from merge_results_entries [OF this]
  have eq: "map (\<lambda>a. (result_id a, result_text a)) out =
            map (\<lambda>c. (comment_id c, comment_text c)) comments"
    by (simp add: original_map_of_distinct [OF assms(1)])
  then have len: "length out = length comments"
    by (metis length_map)
  have "result_id (out ! i) = comment_id (comments ! i) \<and>
        result_text (out ! i) = comment_text (comments ! i)" if "i < length comments" for i
  proof -
    have "map (\<lambda>a. (result_id a, result_text a)) out ! i =
          map (\<lambda>c. (comment_id c, comment_text c)) comments ! i"
      by (simp only: eq)
    with that len show ?thesis by simp
  qed
  with len show ?thesis by blast
qed

text \<open>The document holds the line for \<^verbatim>\<open>b\<close> before the line for \<^verbatim>\<open>a\<close>.\<close>

theorem output_follows_input_order_witness:
  "distinct (map comment_id [comment_a, comment_b]) \<and>
   reconcile sample_lib (line_b @ [CHR 0x0A] @ line_a) (original_map_of [comment_a, comment_b]) =
     Inr [\<lparr>result_id = ''a'', result_text = ''You are useless'', analysis = Some analysis_a, error = None\<rparr>,
          \<lparr>result_id = ''b'', result_text = ''Nice weather today'', analysis = Some analysis_a, error = None\<rparr>] \<and>
   result_id ([\<lparr>result_id = ''a'', result_text = ''You are useless'', analysis = Some analysis_a, error = None\<rparr>,
          \<lparr>result_id = ''b'', result_text = ''Nice weather today'', analysis = Some analysis_a, error = None\<rparr>] ! 1) =
     comment_id ([comment_a, comment_b] ! 1)"
proof -
  have d: "distinct (map comment_id [comment_a, comment_b])"
    by (simp add: comment_a_def comment_b_def)
  have r: "reconcile sample_lib (line_b @ [CHR 0x0A] @ line_a) (original_map_of [comment_a, comment_b]) =
     Inr [\<lparr>result_id = ''a'', result_text = ''You are useless'', analysis = Some analysis_a, error = None\<rparr>,
          \<lparr>result_id = ''b'', result_text = ''Nice weather today'', analysis = Some analysis_a, error = None\<rparr>]"
    by code_simp
  have "(1::nat) < length [comment_a, comment_b]" by simp
  with output_follows_input_order [OF d r]
  have "result_id ([\<lparr>result_id = ''a'', result_text = ''You are useless'', analysis = Some analysis_a, error = None\<rparr>,
          \<lparr>result_id = ''b'', result_text = ''Nice weather today'', analysis = Some analysis_a, error = None\<rparr>] ! 1) =
     comment_id ([comment_a, comment_b] ! 1)"
    by blast
  with d r show ?thesis
    by (simp only: simp_thms)
qed

section \<open>Ids without a line\<close>

text \<open>
  The loop over the lines stores entries under the \<^verbatim>\<open>custom_id\<close> of a decoded line
  only, or under the id that an earlier line left in the variable: an id that no line
  carries has no entry and is never the value of \<^verbatim>\<open>custom_id\<close>.
\<close>

lemma store_outcome_stores:
  "store_outcome lib item c rm = Inr rm' \<Longrightarrow> \<exists>v. rm' = rm(c \<mapsto> v)"
  unfolding store_outcome_def bindE_def set_item_def
  by (auto split: sum.splits if_splits)

lemma handler_keeps_absent:
  assumes "c \<noteq> Some (JStr cid)" and "rm (JStr cid) = None"
      and "handler lib c rm e = Inr st'"
  shows "custom_id st' = c \<and> results_map st' (JStr cid) = None"
  using assms
  unfolding handler_def bindE_def set_item_def
  by (auto split: option.splits if_splits sum.splits)

lemma process_line_keeps_absent:
  assumes "\<not> carries_id lib cid line"
      and "custom_id st \<noteq> Some (JStr cid)"
      and "results_map st (JStr cid) = None"
      and "process_line lib st line = Inr st'"
  shows "custom_id st' \<noteq> Some (JStr cid) \<and> results_map st' (JStr cid) = None"
proof (cases "line = []")
  case True
  with assms show ?thesis by (simp add: process_line_def)
next
  case False
  show ?thesis
  proof (cases "json_loads lib line")
    case (Inl m)
    with False assms(4) have "handler lib (custom_id st) (results_map st) (JSONDecodeError m) = Inr st'"
      by (simp add: process_line_def try_block_def loads_def)
    from handler_keeps_absent [OF assms(2) assms(3) this] assms(2) show ?thesis by simp
  next
    case (Inr item)
    show ?thesis
    proof (cases "dict_get item ''custom_id'' JNull")
      case (Inl e)
      with Inr False assms(4) have "handler lib (custom_id st) (results_map st) e = Inr st'"
        by (simp add: process_line_def try_block_def loads_def)
      from handler_keeps_absent [OF assms(2) assms(3) this] assms(2) show ?thesis by simp
    next
      case c: (Inr c)
      have ne: "c \<noteq> JStr cid"
        using assms(1) Inr c
        by (cases item) (auto simp add: carries_id_def split: option.splits)
      show ?thesis
      proof (cases "store_outcome lib item c (results_map st)")
        case (Inl e)
        with Inr c False assms(4) have "handler lib (Some c) (results_map st) e = Inr st'"
          by (simp add: process_line_def try_block_def loads_def)
        from handler_keeps_absent [OF _ assms(3) this] ne show ?thesis by simp
      next
        case rm: (Inr rm')
        with Inr c False assms(4) have st': "st' = \<lparr>custom_id = Some c, results_map = rm'\<rparr>"
          by (simp add: process_line_def try_block_def loads_def)
        from store_outcome_stores [OF rm] obtain v where "rm' = (results_map st)(c \<mapsto> v)" by blast
        with st' ne assms(3) show ?thesis by simp
      qed
    qed
  qed
qed

lemma process_lines_keeps_absent:
  "list_all (\<lambda>line. \<not> carries_id lib cid line) lines \<Longrightarrow>
   custom_id st \<noteq> Some (JStr cid) \<Longrightarrow>
   results_map st (JStr cid) = None \<Longrightarrow>
   process_lines lib st lines = Inr st' \<Longrightarrow>
   results_map st' (JStr cid) = None"
proof (induction lines arbitrary: st)
  case Nil
  then show ?case by simp
next
  case (Cons line lines)
  from Cons.prems(4) obtain st1 where
    one: "process_line lib st line = Inr st1" and
    rest: "process_lines lib st1 lines = Inr st'"
    by (auto split: sum.splits)
  from Cons.prems(1) have here: "\<not> carries_id lib cid line"
    and later: "list_all (\<lambda>line. \<not> carries_id lib cid line) lines" by simp_all
  from process_line_keeps_absent [OF here Cons.prems(2) Cons.prems(3) one]
  have "custom_id st1 \<noteq> Some (JStr cid)" and "results_map st1 (JStr cid) = None" by simp_all
  from Cons.IH [OF later this rest] show ?case .
qed

lemma merge_results_nth:
  "merge_results lib rm om = Inr out \<Longrightarrow> i < length om \<Longrightarrow>
   merge_item lib rm (om ! i) = Inr (out ! i)"
proof (induction om arbitrary: out i)
  case Nil
  then show ?case by simp
next
  case (Cons entry om)
  from Cons.prems(1) obtain a rest where
    a: "merge_item lib rm entry = Inr a" and
    rest: "merge_results lib rm om = Inr rest" and
    out: "out = a # rest"
    by (auto split: sum.splits)
  show ?case
  proof (cases i)
    case 0
    with a out show ?thesis by simp
  next
    case (Suc j)
    with Cons.prems(2) have "j < length om" by simp
    from Cons.IH [OF rest this] Suc out show ?thesis by simp
  qed
qed

text \<open>
  C6, as the code has it. For an input id that no line of the output document carries,
  the reconciler's list holds, at the id's position, an entry with no analysis and the
  error \<^verbatim>\<open>No result found (Job failed or ID mismatch)\<close>.
\<close>

theorem missing_id_gets_no_result:
  assumes "reconcile lib text_content original_map = Inr out"
      and "list_all (\<lambda>line. \<not> carries_id lib cid line) (split_nl (strip text_content))"
      and "i < length original_map"
      and "fst (original_map ! i) = cid"
  shows "out ! i = \<lparr>result_id = cid, result_text = snd (original_map ! i), analysis = None,
                    error = Some ''No result found (Job failed or ID mismatch)''\<rparr>"
proof -
  from reconcile_merge [OF assms(1)] obtain st :: loop_state where
    lines: "process_lines lib initial_state (split_nl (strip text_content)) = Inr st" and
    merged: "merge_results lib (results_map st) original_map = Inr out" by blast
  have absent: "results_map st (JStr cid) = None"
    by (rule process_lines_keeps_absent [OF assms(2) _ _ lines]) (simp_all add: initial_state_def)
  obtain body where entry: "original_map ! i = (cid, body)"
    using assms(4) by (cases "original_map ! i") simp
  from merge_results_nth [OF merged assms(3)]
  have "merge_item lib (results_map st) (cid, body) = Inr (out ! i)"
    by (simp add: entry)
  with absent show ?thesis
    by (simp add: merge_item_def no_result_def entry)
qed

text \<open>The end-to-end example: a line for \<^verbatim>\<open>a\<close>, no line for \<^verbatim>\<open>b\<close>.\<close>

theorem missing_id_gets_no_result_witness:
  "reconcile sample_lib line_a (original_map_of [comment_a, comment_b]) =
     Inr [\<lparr>result_id = ''a'', result_text = ''You are useless'', analysis = Some analysis_a, error = None\<rparr>,
          \<lparr>result_id = ''b'', result_text = ''Nice weather today'', analysis = None,
           error = Some ''No result found (Job failed or ID mismatch)''\<rparr>] \<and>
   list_all (\<lambda>line. \<not> carries_id sample_lib ''b'' line) (split_nl (strip line_a)) \<and>
   (1::nat) < length (original_map_of [comment_a, comment_b]) \<and>
   fst (original_map_of [comment_a, comment_b] ! 1) = ''b'' \<and>
   [\<lparr>result_id = ''a'', result_text = ''You are useless'', analysis = Some analysis_a, error = None\<rparr>,
    \<lparr>result_id = ''b'', result_text = ''Nice weather today'', analysis = None,
     error = Some ''No result found (Job failed or ID mismatch)''\<rparr>] ! 1 =
   \<lparr>result_id = ''b'', result_text = snd (original_map_of [comment_a, comment_b] ! 1), analysis = None,
    error = Some ''No result found (Job failed or ID mismatch)''\<rparr>"
proof -
  have r: "reconcile sample_lib line_a (original_map_of [comment_a, comment_b]) =
     Inr [\<lparr>result_id = ''a'', result_text = ''You are useless'', analysis = Some analysis_a, error = None\<rparr>,
          \<lparr>result_id = ''b'', result_text = ''Nice weather today'', analysis = None,
           error = Some ''No result found (Job failed or ID mismatch)''\<rparr>]"
    by code_simp
  have l: "list_all (\<lambda>line. \<not> carries_id sample_lib ''b'' line) (split_nl (strip line_a))"
    by code_simp
  have i: "(1::nat) < length (original_map_of [comment_a, comment_b])"
    by code_simp
  have f: "fst (original_map_of [comment_a, comment_b] ! 1) = ''b''"
    by code_simp
  from missing_id_gets_no_result [OF r l i f] r l i f show ?thesis
    by (simp only: simp_thms)
qed

text \<open>
  C6, as the specification words it, fails on the end-to-end example: the error of
  \<^verbatim>\<open>b\<close> is not the text \<^verbatim>\<open>no result returned\<close>.
\<close>

theorem missing_id_sentinel_counterexample:
  "reconcile sample_lib line_a (original_map_of [comment_a, comment_b]) =
     Inr [\<lparr>result_id = ''a'', result_text = ''You are useless'', analysis = Some analysis_a, error = None\<rparr>,
          \<lparr>result_id = ''b'', result_text = ''Nice weather today'', analysis = None,
           error = Some ''No result found (Job failed or ID mismatch)''\<rparr>] \<and>
   ''No result found (Job failed or ID mismatch)'' \<noteq> ''no result returned''"
  by code_simp

section \<open>The entries returned to the caller\<close>

text \<open>
  What the merge loop makes of the value \<open>v\<close> that it reads for an id: the validated
  analysis when \<open>v\<close> is true and holds no \<^verbatim>\<open>error\<close>, the error of \<open>v\<close> when it holds one,
  the fixed text when \<open>v\<close> is false.
\<close>

lemma merge_item_outcome:
  assumes "merge_item lib rm (cid, body) = Inr a"
      and "v = (case rm (JStr cid) of None \<Rightarrow> JNull | Some x \<Rightarrow> x)"
  shows "(truthy v \<longrightarrow> (\<exists>b. py_contains v ''error'' = Inr b)) \<and>
         (truthy v \<and> py_contains v ''error'' = Inr False \<longrightarrow>
            analysis a = model_validate lib v \<and> analysis a \<noteq> None \<and> error a = None) \<and>
         (truthy v \<and> py_contains v ''error'' = Inr True \<longrightarrow>
            analysis a = None \<and>
            (\<exists>m. dict_get v ''error'' JNull = Inr m \<and> error a = Some (py_str lib m))) \<and>
         (\<not> truthy v \<longrightarrow>
            analysis a = None \<and> error a = Some ''No result found (Job failed or ID mismatch)'')"
  using assms
  by (auto simp add: merge_item_def bindE_def Let_def no_result_def
           split: sum.splits if_splits option.splits)

text \<open>The response of the endpoint is the list that \<^verbatim>\<open>parse_results\<close> returns.\<close>

lemma endpoint_response_source:
  assumes "map_option fst (analyze_batch_endpoint lib cl path comments w) = Some (Inr response)"
      and "map_option fst (run_google_batch_process cl path
             (w\<lparr>files := (files w)(path \<mapsto> create_jsonl_content lib comments)\<rparr>)) =
           Some (Inr output_file_name)"
  shows "parse_results lib (download_reply cl) output_file_name (original_map_of comments) =
         Inr (results response)"
  using assms
  unfolding analyze_batch_endpoint_def try_pipeline_def
  by (auto split: if_splits option.splits sum.splits prod.splits)

text \<open>
  C7. Every \<^verbatim>\<open>AnalyzedComment\<close> of a response of the endpoint has exactly one of its
  fields \<^verbatim>\<open>analysis\<close> and \<^verbatim>\<open>error\<close> set, and which one is decided by the value \<open>v\<close> that
  the output document left for the comment's id. On success (\<open>v\<close> is true and holds no
  \<^verbatim>\<open>error\<close>) the entry has the validated analysis of \<open>v\<close> and no error. On a per-item
  failure the entry has no analysis and an error: the error that \<open>v\<close> holds (a backend
  error, an empty answer, a line that failed to parse), or, when nothing usable was
  stored for the id, the text \<^verbatim>\<open>No result found (Job failed or ID mismatch)\<close>. No other
  case returns an entry. The entry at position i has the id and the text of item i of
  \<^verbatim>\<open>original_map\<close>.
\<close>

theorem exactly_one_of_analysis_and_error:
  assumes "map_option fst (analyze_batch_endpoint lib cl temp_file_path comments w) = Some (Inr response)"
      and "map_option fst (run_google_batch_process cl temp_file_path
             (w\<lparr>files := (files w)(temp_file_path \<mapsto> create_jsonl_content lib comments)\<rparr>)) =
           Some (Inr output_file_name)"
      and "download_reply cl output_file_name = Inr text_content"
      and "i < length (results response)"
      and "v = stored_result lib text_content (fst (original_map_of comments ! i))"
      and "a = results response ! i"
  shows "list_all (\<lambda>a. (analysis a \<noteq> None \<and> error a = None) \<or>
                        (analysis a = None \<and> error a \<noteq> None)) (results response) \<and>
         length (results response) = length (original_map_of comments) \<and>
         result_id a = fst (original_map_of comments ! i) \<and>
         result_text a = snd (original_map_of comments ! i) \<and>
         (truthy v \<longrightarrow> (\<exists>b. py_contains v ''error'' = Inr b)) \<and>
         (truthy v \<and> py_contains v ''error'' = Inr False \<longrightarrow>
            analysis a = model_validate lib v \<and> analysis a \<noteq> None \<and> error a = None) \<and>
         (truthy v \<and> py_contains v ''error'' = Inr True \<longrightarrow>
            analysis a = None \<and>
            (\<exists>m. dict_get v ''error'' JNull = Inr m \<and> error a = Some (py_str lib m))) \<and>
         (\<not> truthy v \<longrightarrow>
            analysis a = None \<and> error a = Some ''No result found (Job failed or ID mismatch)'')"
proof -
  let ?om = "original_map_of comments"
  from endpoint_response_source [OF assms(1) assms(2)] assms(3)
  have rec: "reconcile lib text_content ?om = Inr (results response)"
    by (simp add: parse_results_def)
  from reconcile_merge [OF rec] obtain st :: loop_state where
    lines: "process_lines lib initial_state (split_nl (strip text_content)) = Inr st" and
    merged: "merge_results lib (results_map st) ?om = Inr (results response)" by blast
  from merge_results_entries [OF merged]
  have entries: "map (\<lambda>a. (result_id a, result_text a)) (results response) = ?om" .
  then have "length (map (\<lambda>a. (result_id a, result_text a)) (results response)) = length ?om"
    by simp
  then have len: "length (results response) = length ?om" by simp
  with assms(4) have i: "i < length ?om" by simp
  obtain cid body where entry: "?om ! i = (cid, body)" by (cases "?om ! i")
  from merge_results_nth [OF merged i] assms(6)
  have item: "merge_item lib (results_map st) (cid, body) = Inr a"
    by (simp add: entry)
  have v: "v = (case results_map st (JStr cid) of None \<Rightarrow> JNull | Some x \<Rightarrow> x)"
    by (simp add: assms(5) stored_result_def lines entry)
  from merge_item_fields [OF item]
  have fields: "result_id a = fst (?om ! i) \<and> result_text a = snd (?om ! i)"
    by (simp add: entry)
  from merge_results_exactly_one [OF merged] len fields merge_item_outcome [OF item v]
  show ?thesis by (simp only: simp_thms)
qed

text \<open>
  The end-to-end example (a success for \<^verbatim>\<open>a\<close>, nothing stored for \<^verbatim>\<open>b\<close>), and a document
  that leaves an error entry for \<^verbatim>\<open>a\<close>.
\<close>

theorem exactly_one_of_analysis_and_error_witness:
  "map_option fst (analyze_batch_endpoint sample_lib (sample_client line_a) ''/tmp/req.jsonl''
      [comment_a, comment_b] empty_world) =
     Some (Inr \<lparr>results =
       [\<lparr>result_id = ''a'', result_text = ''You are useless'', analysis = Some analysis_a, error = None\<rparr>,
        \<lparr>result_id = ''b'', result_text = ''Nice weather today'', analysis = None,
         error = Some ''No result found (Job failed or ID mismatch)''\<rparr>],
       total_processed = 2, status = ''completed''\<rparr>) \<and>
   stored_result sample_lib line_a ''a'' = analysis_json_a \<and>
   truthy analysis_json_a \<and>
   py_contains analysis_json_a ''error'' = Inr False \<and>
   model_validate sample_lib analysis_json_a = Some analysis_a \<and>
   stored_result sample_lib line_a ''b'' = JNull \<and>
   map_option fst (analyze_batch_endpoint sample_lib (sample_client (line_a @ [CHR 0x0A] @ line_bad))
      ''/tmp/req.jsonl'' [comment_a, comment_b] empty_world) =
     Some (Inr \<lparr>results =
       [\<lparr>result_id = ''a'', result_text = ''You are useless'', analysis = None,
         error = Some ''Expecting value: line 1 column 1 (char 0)''\<rparr>,
        \<lparr>result_id = ''b'', result_text = ''Nice weather today'', analysis = None,
         error = Some ''No result found (Job failed or ID mismatch)''\<rparr>],
       total_processed = 2, status = ''completed''\<rparr>) \<and>
   stored_result sample_lib (line_a @ [CHR 0x0A] @ line_bad) ''a'' =
     JObj [(''error'', JStr ''Expecting value: line 1 column 1 (char 0)'')] \<and>
   py_contains (JObj [(''error'', JStr ''Expecting value: line 1 column 1 (char 0)'')]) ''error'' =
     Inr True"
proof -
  let ?R1 = "\<lparr>results =
       [\<lparr>result_id = ''a'', result_text = ''You are useless'', analysis = Some analysis_a, error = None\<rparr>,
        \<lparr>result_id = ''b'', result_text = ''Nice weather today'', analysis = None,
         error = Some ''No result found (Job failed or ID mismatch)''\<rparr>],
       total_processed = 2, status = ''completed''\<rparr>"
  let ?R2 = "\<lparr>results =
       [\<lparr>result_id = ''a'', result_text = ''You are useless'', analysis = None,
         error = Some ''Expecting value: line 1 column 1 (char 0)''\<rparr>,
        \<lparr>result_id = ''b'', result_text = ''Nice weather today'', analysis = None,
         error = Some ''No result found (Job failed or ID mismatch)''\<rparr>],
       total_processed = 2, status = ''completed''\<rparr>"
  let ?doc2 = "line_a @ [CHR 0x0A] @ line_bad"
  let ?w1 = "empty_world\<lparr>files := (files empty_world)(''/tmp/req.jsonl'' \<mapsto>
          create_jsonl_content sample_lib [comment_a, comment_b])\<rparr>"
  have r1: "map_option fst (analyze_batch_endpoint sample_lib (sample_client line_a) ''/tmp/req.jsonl''
      [comment_a, comment_b] empty_world) = Some (Inr ?R1)"
    by code_simp
  have run1: "map_option fst (run_google_batch_process (sample_client line_a) ''/tmp/req.jsonl'' ?w1) =
      Some (Inr ''files/out1'')"
    by code_simp
  have get1: "download_reply (sample_client line_a) ''files/out1'' = Inr line_a"
    by (simp add: sample_client_def)
  have r2: "map_option fst (analyze_batch_endpoint sample_lib (sample_client ?doc2) ''/tmp/req.jsonl''
      [comment_a, comment_b] empty_world) = Some (Inr ?R2)"
    by code_simp
  have run2: "map_option fst (run_google_batch_process (sample_client ?doc2) ''/tmp/req.jsonl'' ?w1) =
      Some (Inr ''files/out1'')"
    by code_simp
  have get2: "download_reply (sample_client ?doc2) ''files/out1'' = Inr ?doc2"
    by (simp add: sample_client_def)
  have ids: "fst (original_map_of [comment_a, comment_b] ! 0) = ''a''"
            "fst (original_map_of [comment_a, comment_b] ! 1) = ''b''"
    by code_simp+
  have sa: "stored_result sample_lib line_a ''a'' = analysis_json_a"
    by code_simp
  have sb: "stored_result sample_lib line_a ''b'' = JNull"
    by code_simp
  have se: "stored_result sample_lib ?doc2 ''a'' =
            JObj [(''error'', JStr ''Expecting value: line 1 column 1 (char 0)'')]"
    by code_simp
  have ta: "truthy analysis_json_a" by code_simp
  have ca: "py_contains analysis_json_a ''error'' = Inr False" by code_simp
  have va: "model_validate sample_lib analysis_json_a = Some analysis_a" by code_simp
  have ce: "py_contains (JObj [(''error'', JStr ''Expecting value: line 1 column 1 (char 0)'')]) ''error'' =
            Inr True"
    by simp
  have i0: "0 < length (results ?R1)" and i1: "1 < length (results ?R1)"
    and j0: "0 < length (results ?R2)" by simp_all
  note first = exactly_one_of_analysis_and_error [OF r1 run1 get1 i0 refl refl]
  note second = exactly_one_of_analysis_and_error [OF r1 run1 get1 i1 refl refl]
  note third = exactly_one_of_analysis_and_error [OF r2 run2 get2 j0 refl refl]
  from first ta ca va have "analysis (results ?R1 ! 0) = Some analysis_a \<and> error (results ?R1 ! 0) = None"
    by (simp add: ids sa)
  moreover
  from second have "analysis (results ?R1 ! 1) = None \<and>
      error (results ?R1 ! 1) = Some ''No result found (Job failed or ID mismatch)''"
    by (simp add: ids sb)
  moreover
  from third ce have "analysis (results ?R2 ! 0) = None \<and>
      error (results ?R2 ! 0) = Some ''Expecting value: line 1 column 1 (char 0)''"
    by (simp add: ids se)
  ultimately show ?thesis
    using r1 r2 sa sb se ta ca va ce by (simp only: simp_thms)
qed

section \<open>The request document\<close>

text \<open>Splitting at line feeds undoes the join of lines that hold no line feed.\<close>

lemma split_nl_single:
  "CHR 0x0A \<notin> set l \<Longrightarrow> split_nl l = [l]"
  by (induction l) auto

lemma split_nl_line:
  "CHR 0x0A \<notin> set l \<Longrightarrow> split_nl (l @ CHR 0x0A # rest) = l # split_nl rest"
  by (induction l) auto

lemma split_nl_join_nl:
  "ls \<noteq> [] \<Longrightarrow> list_all (\<lambda>l. CHR 0x0A \<notin> set l) ls \<Longrightarrow> split_nl (join_nl ls) = ls"
proof (induction ls rule: join_nl.induct)
  case 1
  then show ?case by simp
next
  case (2 l)
  then show ?case by (simp add: split_nl_single)
next
  case (3 l m ls)
  then show ?case by (simp add: split_nl_line)
qed

text \<open>
  C8. When \<^verbatim>\<open>json.dumps\<close> writes no line feed into the lines (it writes none without an
  indent), the request document has one line per comment, and line i is the serialised
  request object of comment i: its \<^verbatim>\<open>custom_id\<close> is the comment's id, and its request
  holds the model reference \<^verbatim>\<open>models/gemini-3-flash-preview\<close>, the comment's text inside
  the prompt at \<^verbatim>\<open>contents[0].parts[0].text\<close>, the temperature 0.0, the response MIME type
  \<^verbatim>\<open>application/json\<close> and the JSON schema of \<^verbatim>\<open>ToxicityAnalysis\<close>.
\<close>

theorem request_line_encodes_comment:
  assumes "i < length comments"
      and "list_all (\<lambda>c. CHR 0x0A \<notin> set (json_dumps lib (request_body (model_json_schema lib) c))) comments"
  shows "length (split_nl (create_jsonl_content lib comments)) = length comments \<and>
         split_nl (create_jsonl_content lib comments) ! i =
           json_dumps lib (request_body (model_json_schema lib) (comments ! i)) \<and>
         select (request_body (model_json_schema lib) (comments ! i)) [Key ''custom_id''] =
           Inr (JStr (comment_id (comments ! i))) \<and>
         select (request_body (model_json_schema lib) (comments ! i)) [Key ''request'', Key ''model''] =
           Inr (JStr ''models/gemini-3-flash-preview'') \<and>
         select (request_body (model_json_schema lib) (comments ! i))
             [Key ''request'', Key ''contents'', First, Key ''parts'', First, Key ''text''] =
           Inr (JStr (''Analyze toxicity for: \"'' @ comment_text (comments ! i) @
             ''\". Return JSON based on schema. Justification in text'' @ [CHR 0x27] @
             ''s original language.'')) \<and>
         select (request_body (model_json_schema lib) (comments ! i))
             [Key ''request'', Key ''generationConfig'', Key ''temperature''] =
           Inr (JFloat (Finite 0)) \<and>
         select (request_body (model_json_schema lib) (comments ! i))
             [Key ''request'', Key ''generationConfig'', Key ''response_mime_type''] =
           Inr (JStr ''application/json'') \<and>
         select (request_body (model_json_schema lib) (comments ! i))
             [Key ''request'', Key ''generationConfig'', Key ''response_json_schema''] =
           Inr (model_json_schema lib)"
proof -
  let ?lines = "map (\<lambda>c. json_dumps lib (request_body (model_json_schema lib) c)) comments"
  from assms(1) have ne: "?lines \<noteq> []" by auto
  from assms(2) have clean: "list_all (\<lambda>l. CHR 0x0A \<notin> set l) ?lines"
    by (simp add: list_all_iff)
  have doc: "split_nl (create_jsonl_content lib comments) = ?lines"
    unfolding create_jsonl_content_def Let_def by (rule split_nl_join_nl [OF ne clean])
  have len: "length (split_nl (create_jsonl_content lib comments)) = length comments"
    by (simp add: doc)
  have line: "split_nl (create_jsonl_content lib comments) ! i =
           json_dumps lib (request_body (model_json_schema lib) (comments ! i))"
    using assms(1) by (simp add: doc)
  show ?thesis
    using len line
    by (simp add: request_body_def bindE_def MODEL_ID_def prompt_text_def prompt_prefix_def prompt_suffix_def)
qed

text \<open>The second line of the document for the two comments of the example.\<close>

theorem request_line_encodes_comment_witness:
  "(1::nat) < length [comment_a, comment_b] \<and>
   list_all (\<lambda>c. CHR 0x0A \<notin> set (json_dumps sample_lib (request_body (model_json_schema sample_lib) c)))
     [comment_a, comment_b] \<and>
   split_nl (create_jsonl_content sample_lib [comment_a, comment_b]) ! 1 = request_line comment_b \<and>
   select (request_body (model_json_schema sample_lib) ([comment_a, comment_b] ! 1)) [Key ''custom_id''] =
     Inr (JStr ''b'')"
proof -
  have i: "(1::nat) < length [comment_a, comment_b]" by simp
  have c: "list_all (\<lambda>c. CHR 0x0A \<notin> set (json_dumps sample_lib (request_body (model_json_schema sample_lib) c)))
     [comment_a, comment_b]"
    by code_simp
  have d: "json_dumps sample_lib (request_body (model_json_schema sample_lib) ([comment_a, comment_b] ! 1)) =
           request_line comment_b"
    by code_simp
  have b: "comment_id ([comment_a, comment_b] ! 1) = ''b''"
    by code_simp
  from request_line_encodes_comment [OF i c] i c show ?thesis
    by (simp only: d b simp_thms)
qed

section \<open>The endpoint's effects\<close>

text \<open>
  The waiting loop, the polling loop and the batch process leave the local files as
  they are and only add calls to the log; the batch process starts with the upload of
  the request file.
\<close>

lemma wait_for_file_effect:
  "wait_for_file f replies w = Some (r, w') \<Longrightarrow>
   files w' = files w \<and> (\<exists>more. calls w' = calls w @ more)"
proof (induction replies arbitrary: f w)
  case Nil
  then show ?case by (auto split: if_splits)
next
  case (Cons reply replies)
  show ?case
  proof (cases "file_state f = ''STATE_PROCESSING''")
    case False
    with Cons.prems show ?thesis by auto
  next
    case True
    show ?thesis
    proof (cases reply)
      case (Inl e)
      with True Cons.prems show ?thesis by (auto simp add: log_call_def)
    next
      case (Inr f')
      with True Cons.prems
      have "wait_for_file f' replies (log_call (FilesGet (file_name f)) w) = Some (r, w')" by simp
      from Cons.IH [OF this] show ?thesis by (auto simp add: log_call_def)
    qed
  qed
qed

lemma poll_effect:
  "poll job replies w = Some (r, w') \<Longrightarrow>
   files w' = files w \<and> (\<exists>more. calls w' = calls w @ more)"
proof (induction replies arbitrary: w)
  case Nil
  then show ?case by simp
next
  case (Cons reply replies)
  show ?case
  proof (cases reply)
    case (Inl e)
    with Cons.prems show ?thesis by (auto simp add: log_call_def)
  next
    case (Inr job_status)
    show ?thesis
    proof (cases "job_state job_status \<in> set [''JOB_STATE_SUCCEEDED'', ''JOB_STATE_FAILED'', ''JOB_STATE_CANCELLED'', ''JOB_STATE_EXPIRED'']")
      case True
      with Inr Cons.prems show ?thesis by (auto simp add: log_call_def split: if_splits)
    next
      case False
      with Inr Cons.prems
      have "poll job replies (log_call (BatchesGet job) w) = Some (r, w')" by simp
      from Cons.IH [OF this] show ?thesis by (auto simp add: log_call_def)
    qed
  qed
qed

lemma run_google_batch_process_effect:
  assumes "run_google_batch_process cl path w = Some (r, w')"
  shows "files w' = files w \<and> (\<exists>more. calls w' = calls w @ FilesUpload path # more)"
proof (cases "upload_reply cl")
  case (Inl e)
  with assms show ?thesis by (auto simp add: run_google_batch_process_def log_call_def)
next
  case (Inr uploaded)
  let ?w1 = "log_call (FilesUpload path) w"
  from Inr assms obtain r1 w1 where
    waited: "wait_for_file uploaded (files_get_replies cl) ?w1 = Some (r1, w1)"
    by (cases "wait_for_file uploaded (files_get_replies cl) ?w1")
       (auto simp add: run_google_batch_process_def)
  from wait_for_file_effect [OF waited] obtain more1 where
    w1: "files w1 = files w" "calls w1 = calls w @ FilesUpload path # more1"
    by (auto simp add: log_call_def)
  show ?thesis
  proof (cases r1)
    case (Inl e)
    with Inr waited assms w1 show ?thesis by (auto simp add: run_google_batch_process_def)
  next
    case f: (Inr batch_input_file)
    show ?thesis
    proof (cases "batches_create_reply cl")
      case (Inl e)
      with Inr waited f assms w1 show ?thesis
        by (auto simp add: run_google_batch_process_def log_call_def)
    next
      case j: (Inr job)
      with Inr waited f assms
      have "poll job (batches_get_replies cl)
              (log_call (BatchesCreate MODEL_ID (file_name batch_input_file)) w1) = Some (r, w')"
        by (simp add: run_google_batch_process_def)
      from poll_effect [OF this] w1 show ?thesis by (auto simp add: log_call_def)
    qed
  qed
qed

lemma try_pipeline_effect:
  assumes "try_pipeline lib cl path om w = Some (r, w')"
  shows "files w' = files w \<and> (\<exists>more. calls w' = calls w @ FilesUpload path # more)"
proof -
  from assms obtain r1 w1 where
    ran: "run_google_batch_process cl path w = Some (r1, w1)"
    by (cases "run_google_batch_process cl path w") (auto simp add: try_pipeline_def)
  from run_google_batch_process_effect [OF ran] obtain more where
    w1: "files w1 = files w" "calls w1 = calls w @ FilesUpload path # more" by blast
  from assms ran w1 show ?thesis
    by (cases r1) (auto simp add: try_pipeline_def log_call_def)
qed

text \<open>
  A run of the endpoint on a non-empty list that returns: the request file is gone, the
  upload was made, and the outcome is the response or the status 500 with the message
  of the exception.
\<close>

lemma endpoint_effect:
  assumes "comments \<noteq> []"
      and "analyze_batch_endpoint lib cl path comments w = Some (outcome, w')"
  shows "files w' = (files w)(path := None) \<and>
         (\<exists>more. calls w' = calls w @ FilesUpload path # more) \<and>
         (\<exists>r. outcome = (case r of Inl e \<Rightarrow> Inl (HTTPException 500 (str_exn lib e))
                                  | Inr response \<Rightarrow> Inr response))"
proof -
  let ?w1 = "w\<lparr>files := (files w)(path \<mapsto> create_jsonl_content lib comments)\<rparr>"
  from assms obtain r w2 where
    tried: "try_pipeline lib cl path (original_map_of comments) ?w1 = Some (r, w2)"
    by (cases "try_pipeline lib cl path (original_map_of comments) ?w1")
       (auto simp add: analyze_batch_endpoint_def)
  from assms tried have
    out: "outcome = (case r of Inl e \<Rightarrow> Inl (HTTPException 500 (str_exn lib e))
                             | Inr response \<Rightarrow> Inr response)" and
    w': "w' = w2\<lparr>files := (files w2)(path := None)\<rparr>"
    by (auto simp add: analyze_batch_endpoint_def)
  from try_pipeline_effect [OF tried] obtain more where
    "files w2 = files ?w1" "calls w2 = calls ?w1 @ FilesUpload path # more" by blast
  with w' out show ?thesis by auto
qed

text \<open>
  X4. The endpoint fails to return only on a non-empty comment list for which the batch
  process does not return: the uploaded file stays in \<^verbatim>\<open>STATE_PROCESSING\<close> or the job
  never reaches a terminal state.
\<close>

theorem endpoint_waits_with_backend:
  "analyze_batch_endpoint lib cl path comments w = None \<longleftrightarrow>
   comments \<noteq> [] \<and>
   run_google_batch_process cl path
     (w\<lparr>files := (files w)(path \<mapsto> create_jsonl_content lib comments)\<rparr>) = None"
  by (auto simp add: analyze_batch_endpoint_def try_pipeline_def split: option.splits sum.splits prod.splits)

lemma returned_pair:
  "map_option fst x = Some r \<Longrightarrow> x = Some (r, snd (the x))"
  by (cases x) auto

text \<open>
  C9. Whenever the endpoint returns after it has created the request file (the comment
  list is not empty), with a response or with an error of the submission, the polling,
  the download or the reconciliation, the file no longer exists; every other local file
  is as it was.
\<close>

theorem temp_file_removed_on_every_exit:
  assumes "comments \<noteq> []"
      and "analyze_batch_endpoint lib cl temp_file_path comments w = Some (outcome, w')"
  shows "files w' temp_file_path = None \<and>
         (\<forall>p. p \<noteq> temp_file_path \<longrightarrow> files w' p = files w p)"
  using endpoint_effect [OF assms] by simp

text \<open>A run that ends with a failed job, and a run that ends with a response.\<close>

theorem temp_file_removed_on_every_exit_witness:
  "[comment_a, comment_b] \<noteq> [] \<and>
   map_option fst (analyze_batch_endpoint sample_lib
      ((sample_client line_a)\<lparr>batches_get_replies := [Inr job_running, Inr job_failed]\<rparr>)
      ''/tmp/req.jsonl'' [comment_a, comment_b] empty_world) =
     Some (Inl (HTTPException 500 ''Batch Job Failed: quota'')) \<and>
   files (snd (the (analyze_batch_endpoint sample_lib
      ((sample_client line_a)\<lparr>batches_get_replies := [Inr job_running, Inr job_failed]\<rparr>)
      ''/tmp/req.jsonl'' [comment_a, comment_b] empty_world))) ''/tmp/req.jsonl'' = None \<and>
   map_option (isl \<circ> fst) (analyze_batch_endpoint sample_lib (sample_client line_a)
      ''/tmp/req.jsonl'' [comment_a, comment_b] empty_world) = Some False \<and>
   files (snd (the (analyze_batch_endpoint sample_lib (sample_client line_a)
      ''/tmp/req.jsonl'' [comment_a, comment_b] empty_world))) ''/tmp/req.jsonl'' = None"
proof -
  have ne: "[comment_a, comment_b] \<noteq> []" by simp
  have failed: "map_option fst (analyze_batch_endpoint sample_lib
      ((sample_client line_a)\<lparr>batches_get_replies := [Inr job_running, Inr job_failed]\<rparr>)
      ''/tmp/req.jsonl'' [comment_a, comment_b] empty_world) =
     Some (Inl (HTTPException 500 ''Batch Job Failed: quota''))"
    by code_simp
  have ok: "map_option (isl \<circ> fst) (analyze_batch_endpoint sample_lib (sample_client line_a)
      ''/tmp/req.jsonl'' [comment_a, comment_b] empty_world) = Some False"
    by code_simp
  then obtain r where "map_option fst (analyze_batch_endpoint sample_lib (sample_client line_a)
      ''/tmp/req.jsonl'' [comment_a, comment_b] empty_world) = Some r"
    by (cases "analyze_batch_endpoint sample_lib (sample_client line_a)
      ''/tmp/req.jsonl'' [comment_a, comment_b] empty_world") auto
  from temp_file_removed_on_every_exit [OF ne returned_pair [OF failed]]
       temp_file_removed_on_every_exit [OF ne returned_pair [OF this]]
       ne failed ok
  show ?thesis by (simp only: simp_thms)
qed

text \<open>
  C10. An empty comment list is answered with status 400. For a non-empty list, an
  exception raised by the batch process (upload, job creation, a failed or stopped job)
  or by \<^verbatim>\<open>parse_results\<close> (download, reconciliation) is answered with status 500 and the
  exception's message as detail.
\<close>

theorem endpoint_error_responses:
  "analyze_batch_endpoint lib cl temp_file_path [] w =
     Some (Inl (HTTPException 400 ''Lista komentarzy jest pusta.''), w) \<and>
   (comments \<noteq> [] \<longrightarrow>
    map_option fst (run_google_batch_process cl temp_file_path
       (w\<lparr>files := (files w)(temp_file_path \<mapsto> create_jsonl_content lib comments)\<rparr>)) =
      Some (Inl e) \<longrightarrow>
    map_option fst (analyze_batch_endpoint lib cl temp_file_path comments w) =
      Some (Inl (HTTPException 500 (str_exn lib e)))) \<and>
   (comments \<noteq> [] \<longrightarrow>
    map_option fst (run_google_batch_process cl temp_file_path
       (w\<lparr>files := (files w)(temp_file_path \<mapsto> create_jsonl_content lib comments)\<rparr>)) =
      Some (Inr output_file_name) \<longrightarrow>
    parse_results lib (download_reply cl) output_file_name (original_map_of comments) = Inl e \<longrightarrow>
    map_option fst (analyze_batch_endpoint lib cl temp_file_path comments w) =
      Some (Inl (HTTPException 500 (str_exn lib e))))"
  by (auto simp add: analyze_batch_endpoint_def try_pipeline_def split: option.splits sum.splits prod.splits)

text \<open>
  A job that fails, and an output document whose first line is not JSON.
\<close>

theorem endpoint_error_responses_witness:
  "[comment_a, comment_b] \<noteq> [] \<and>
   map_option fst (run_google_batch_process
      ((sample_client line_a)\<lparr>batches_get_replies := [Inr job_running, Inr job_failed]\<rparr>)
      ''/tmp/req.jsonl''
      (empty_world\<lparr>files := (files empty_world)(''/tmp/req.jsonl'' \<mapsto>
          create_jsonl_content sample_lib [comment_a, comment_b])\<rparr>)) =
     Some (Inl (RuntimeError ''Batch Job Failed: quota'')) \<and>
   map_option fst (analyze_batch_endpoint sample_lib
      ((sample_client line_a)\<lparr>batches_get_replies := [Inr job_running, Inr job_failed]\<rparr>)
      ''/tmp/req.jsonl'' [comment_a, comment_b] empty_world) =
     Some (Inl (HTTPException 500 ''Batch Job Failed: quota'')) \<and>
   map_option fst (run_google_batch_process (sample_client (line_bad @ [CHR 0x0A] @ line_a))
      ''/tmp/req.jsonl''
      (empty_world\<lparr>files := (files empty_world)(''/tmp/req.jsonl'' \<mapsto>
          create_jsonl_content sample_lib [comment_a, comment_b])\<rparr>)) =
     Some (Inr ''files/out1'') \<and>
   parse_results sample_lib (download_reply (sample_client (line_bad @ [CHR 0x0A] @ line_a)))
      ''files/out1'' (original_map_of [comment_a, comment_b]) = Inl (UnboundLocalError ''custom_id'') \<and>
   map_option fst (analyze_batch_endpoint sample_lib (sample_client (line_bad @ [CHR 0x0A] @ line_a))
      ''/tmp/req.jsonl'' [comment_a, comment_b] empty_world) =
     Some (Inl (HTTPException 500 (exn_text sample_lib (UnboundLocalError ''custom_id''))))"
proof -
  have ne: "[comment_a, comment_b] \<noteq> []" by simp
  have failed: "map_option fst (run_google_batch_process
      ((sample_client line_a)\<lparr>batches_get_replies := [Inr job_running, Inr job_failed]\<rparr>)
      ''/tmp/req.jsonl''
      (empty_world\<lparr>files := (files empty_world)(''/tmp/req.jsonl'' \<mapsto>
          create_jsonl_content sample_lib [comment_a, comment_b])\<rparr>)) =
     Some (Inl (RuntimeError ''Batch Job Failed: quota''))"
    by code_simp
  have ran: "map_option fst (run_google_batch_process (sample_client (line_bad @ [CHR 0x0A] @ line_a))
      ''/tmp/req.jsonl''
      (empty_world\<lparr>files := (files empty_world)(''/tmp/req.jsonl'' \<mapsto>
          create_jsonl_content sample_lib [comment_a, comment_b])\<rparr>)) =
     Some (Inr ''files/out1'')"
    by code_simp
  have raised: "parse_results sample_lib (download_reply (sample_client (line_bad @ [CHR 0x0A] @ line_a)))
      ''files/out1'' (original_map_of [comment_a, comment_b]) = Inl (UnboundLocalError ''custom_id'')"
    by code_simp
  note general = endpoint_error_responses [where lib = sample_lib and temp_file_path = "''/tmp/req.jsonl''"
      and w = empty_world and comments = "[comment_a, comment_b]"]
  from general [where cl = "(sample_client line_a)\<lparr>batches_get_replies := [Inr job_running, Inr job_failed]\<rparr>"
      and e = "RuntimeError ''Batch Job Failed: quota''"] ne failed
  have first: "map_option fst (analyze_batch_endpoint sample_lib
      ((sample_client line_a)\<lparr>batches_get_replies := [Inr job_running, Inr job_failed]\<rparr>)
      ''/tmp/req.jsonl'' [comment_a, comment_b] empty_world) =
     Some (Inl (HTTPException 500 ''Batch Job Failed: quota''))"
    by simp
  from general [where cl = "sample_client (line_bad @ [CHR 0x0A] @ line_a)"
      and e = "UnboundLocalError ''custom_id''" and output_file_name = "''files/out1''"] ne ran raised
  have second: "map_option fst (analyze_batch_endpoint sample_lib (sample_client (line_bad @ [CHR 0x0A] @ line_a))
      ''/tmp/req.jsonl'' [comment_a, comment_b] empty_world) =
     Some (Inl (HTTPException 500 (exn_text sample_lib (UnboundLocalError ''custom_id''))))"
    by simp
  from ne failed first ran raised second show ?thesis by (simp only: simp_thms)
qed

text \<open>
  C3, as the code has it. An empty comment list is rejected with status 400 and nothing
  else happens: no file is written and no call is made to the backend. Every non-empty
  list, with duplicate ids or without, is submitted: the run starts with the upload of
  the request file and never ends with status 400.
\<close>

theorem empty_input_rejected_before_submission:
  "analyze_batch_endpoint lib cl temp_file_path [] w =
     Some (Inl (HTTPException 400 ''Lista komentarzy jest pusta.''), w) \<and>
   (comments \<noteq> [] \<longrightarrow>
    analyze_batch_endpoint lib cl temp_file_path comments w = Some (outcome, w') \<longrightarrow>
    (\<exists>more. calls w' = calls w @ FilesUpload temp_file_path # more) \<and>
    (\<forall>detail. outcome \<noteq> Inl (HTTPException 400 detail)))"
proof -
  have empty: "analyze_batch_endpoint lib cl temp_file_path [] w =
     Some (Inl (HTTPException 400 ''Lista komentarzy jest pusta.''), w)"
    by (simp add: analyze_batch_endpoint_def)
  have started: "(\<exists>more. calls w' = calls w @ FilesUpload temp_file_path # more) \<and>
      (\<forall>detail. outcome \<noteq> Inl (HTTPException 400 detail))"
    if "comments \<noteq> []" and "analyze_batch_endpoint lib cl temp_file_path comments w = Some (outcome, w')"
  proof -
    from endpoint_effect [OF that] obtain more r where
      c: "calls w' = calls w @ FilesUpload temp_file_path # more" and
      o: "outcome = (case r of Inl e \<Rightarrow> Inl (HTTPException 500 (str_exn lib e))
                             | Inr response \<Rightarrow> Inr response)"
      by blast
    from o have "\<forall>detail. outcome \<noteq> Inl (HTTPException 400 detail)"
      by (cases r) auto
    with c show ?thesis by blast
  qed
  from empty started show ?thesis by blast
qed

text \<open>Two comments with the id \<^verbatim>\<open>a\<close>.\<close>

theorem empty_input_rejected_before_submission_witness:
  "[comment_a, comment_a2] \<noteq> [] \<and>
   map_option (isl \<circ> fst) (analyze_batch_endpoint sample_lib (sample_client line_a)
      ''/tmp/req.jsonl'' [comment_a, comment_a2] empty_world) = Some False \<and>
   hd (calls (snd (the (analyze_batch_endpoint sample_lib (sample_client line_a)
      ''/tmp/req.jsonl'' [comment_a, comment_a2] empty_world)))) = FilesUpload ''/tmp/req.jsonl''"
proof -
  have ne: "[comment_a, comment_a2] \<noteq> []" by simp
  have ok: "map_option (isl \<circ> fst) (analyze_batch_endpoint sample_lib (sample_client line_a)
      ''/tmp/req.jsonl'' [comment_a, comment_a2] empty_world) = Some False"
    by code_simp
  then obtain r where "map_option fst (analyze_batch_endpoint sample_lib (sample_client line_a)
      ''/tmp/req.jsonl'' [comment_a, comment_a2] empty_world) = Some r"
    by (cases "analyze_batch_endpoint sample_lib (sample_client line_a)
      ''/tmp/req.jsonl'' [comment_a, comment_a2] empty_world") auto
  from returned_pair [OF this]
  have "analyze_batch_endpoint sample_lib (sample_client line_a)
      ''/tmp/req.jsonl'' [comment_a, comment_a2] empty_world =
      Some (r, snd (the (analyze_batch_endpoint sample_lib (sample_client line_a)
      ''/tmp/req.jsonl'' [comment_a, comment_a2] empty_world)))" .
  with empty_input_rejected_before_submission [of sample_lib "sample_client line_a" "''/tmp/req.jsonl''"
      empty_world "[comment_a, comment_a2]" r] ne
  have "\<exists>more. calls (snd (the (analyze_batch_endpoint sample_lib (sample_client line_a)
      ''/tmp/req.jsonl'' [comment_a, comment_a2] empty_world))) =
      calls empty_world @ FilesUpload ''/tmp/req.jsonl'' # more"
    by blast
  then have "hd (calls (snd (the (analyze_batch_endpoint sample_lib (sample_client line_a)
      ''/tmp/req.jsonl'' [comment_a, comment_a2] empty_world)))) = FilesUpload ''/tmp/req.jsonl''"
    by (auto simp add: empty_world_def)
  with ne ok show ?thesis by (simp only: simp_thms)
qed

text \<open>
  C3, as the specification words it, fails on two comments with the same id: the
  request is uploaded, the job is created and polled, and the endpoint returns a
  response, with one entry for the two comments.
\<close>

theorem duplicate_ids_counterexample:
  "\<not> distinct (map comment_id [comment_a, comment_a2]) \<and>
   map_option (\<lambda>(outcome, w'). (outcome, calls w'))
     (analyze_batch_endpoint sample_lib (sample_client line_a) ''/tmp/req.jsonl''
        [comment_a, comment_a2] empty_world) =
   Some (Inr \<lparr>results =
           [\<lparr>result_id = ''a'', result_text = ''Nice weather today'', analysis = Some analysis_a,
             error = None\<rparr>],
           total_processed = 1, status = ''completed''\<rparr>,
         [FilesUpload ''/tmp/req.jsonl'', BatchesCreate ''gemini-3-flash-preview'' ''files/in1'',
          BatchesGet ''batches/j1'', BatchesGet ''batches/j1'', BatchesGet ''batches/j1'',
          FilesDownload ''files/out1''])"
  by code_simp

section \<open>When the reconciler returns its list\<close>

text \<open>
  X1. For comments with unique ids, whenever the reconciler returns its list, the list
  has the length of the input and holds the ids of the input, in the order of the
  input, each once.
\<close>

theorem reconciled_list_is_complete:
  assumes "distinct (map comment_id comments)"
      and "reconcile lib text_content (original_map_of comments) = Inr out"
  shows "length out = length comments \<and>
         map result_id out = map comment_id comments \<and>
         distinct (map result_id out)"
proof -
  from reconcile_merge [OF assms(2)] obtain st :: loop_state where
    "merge_results lib (results_map st) (original_map_of comments) = Inr out" by blast
  from merge_results_entries [OF this]
  have "map (\<lambda>a. (result_id a, result_text a)) out =
        map (\<lambda>c. (comment_id c, comment_text c)) comments"
    by (simp add: original_map_of_distinct [OF assms(1)])
  then have "map fst (map (\<lambda>a. (result_id a, result_text a)) out) =
             map fst (map (\<lambda>c. (comment_id c, comment_text c)) comments)"
    by simp
  then have ids: "map result_id out = map comment_id comments"
    by (simp add: comp_def)
  then have "length (map result_id out) = length (map comment_id comments)" by simp
  then have "length out = length comments" by simp
  with ids assms(1) show ?thesis by simp
qed

text \<open>A document whose second line is not JSON.\<close>

theorem reconciled_list_is_complete_witness:
  "distinct (map comment_id [comment_a, comment_b]) \<and>
   reconcile sample_lib (line_a @ [CHR 0x0A] @ line_bad) (original_map_of [comment_a, comment_b]) =
     Inr [\<lparr>result_id = ''a'', result_text = ''You are useless'', analysis = None,
           error = Some ''Expecting value: line 1 column 1 (char 0)''\<rparr>,
          \<lparr>result_id = ''b'', result_text = ''Nice weather today'', analysis = None,
           error = Some ''No result found (Job failed or ID mismatch)''\<rparr>] \<and>
   map result_id
     [\<lparr>result_id = ''a'', result_text = ''You are useless'', analysis = None,
       error = Some ''Expecting value: line 1 column 1 (char 0)''\<rparr>,
      \<lparr>result_id = ''b'', result_text = ''Nice weather today'', analysis = None,
       error = Some ''No result found (Job failed or ID mismatch)''\<rparr>] =
   map comment_id [comment_a, comment_b]"
proof -
  have d: "distinct (map comment_id [comment_a, comment_b])"
    by (simp add: comment_a_def comment_b_def)
  have r: "reconcile sample_lib (line_a @ [CHR 0x0A] @ line_bad) (original_map_of [comment_a, comment_b]) =
     Inr [\<lparr>result_id = ''a'', result_text = ''You are useless'', analysis = None,
           error = Some ''Expecting value: line 1 column 1 (char 0)''\<rparr>,
          \<lparr>result_id = ''b'', result_text = ''Nice weather today'', analysis = None,
           error = Some ''No result found (Job failed or ID mismatch)''\<rparr>]"
    by code_simp
  from reconciled_list_is_complete [OF d r] d r show ?thesis
    by (simp only: simp_thms)
qed

text \<open>
  On a well-formed line the \<^verbatim>\<open>try\<close> block assigns \<^verbatim>\<open>custom_id\<close> a value that can be
  a key, so that the handler, if it runs, stores its entry and returns.
\<close>

lemma handler_returns:
  "hashable c \<Longrightarrow> \<exists>rm'. handler lib (Some c) rm e = Inr \<lparr>custom_id = Some c, results_map = rm'\<rparr>"
  by (simp add: handler_def bindE_def set_item_def)

lemma process_line_returns:
  assumes "line = [] \<or> well_formed_line lib line"
      and "custom_id st = None \<or> (\<exists>c. custom_id st = Some c \<and> hashable c)"
  shows "\<exists>st'. process_line lib st line = Inr st' \<and>
               (custom_id st' = None \<or> (\<exists>c. custom_id st' = Some c \<and> hashable c)) \<and>
               (line \<noteq> [] \<longrightarrow> custom_id st' \<noteq> None)"
proof (cases "line = []")
  case True
  with assms(2) show ?thesis by (simp add: process_line_def)
next
  case False
  with assms(1) have "well_formed_line lib line" by simp
  then obtain kvs where
    item: "json_loads lib line = Inr (JObj kvs)" and
    key: "hashable (case map_of kvs ''custom_id'' of None \<Rightarrow> JNull | Some c \<Rightarrow> c)"
    by (auto simp add: well_formed_line_def split: sum.splits json.splits)
  let ?c = "case map_of kvs ''custom_id'' of None \<Rightarrow> JNull | Some c \<Rightarrow> c"
  have tried: "try_block lib st line = (Some ?c, store_outcome lib (JObj kvs) ?c (results_map st))"
    by (simp add: try_block_def loads_def item)
  show ?thesis
  proof (cases "store_outcome lib (JObj kvs) ?c (results_map st)")
    case (Inl e)
    from handler_returns [OF key, of lib "results_map st" e] obtain rm' where
      "handler lib (Some ?c) (results_map st) e = Inr \<lparr>custom_id = Some ?c, results_map = rm'\<rparr>"
      by blast
    with False tried Inl key show ?thesis by (simp add: process_line_def)
  next
    case (Inr rm')
    with False tried key show ?thesis by (simp add: process_line_def)
  qed
qed

lemma process_lines_returns:
  "list_all (\<lambda>line. line = [] \<or> well_formed_line lib line) lines \<Longrightarrow>
   custom_id st = None \<or> (\<exists>c. custom_id st = Some c \<and> hashable c) \<Longrightarrow>
   \<exists>st'. process_lines lib st lines = Inr st'"
proof (induction lines arbitrary: st)
  case Nil
  then show ?case by simp
next
  case (Cons line lines)
  from Cons.prems(1) have here: "line = [] \<or> well_formed_line lib line"
    and later: "list_all (\<lambda>line. line = [] \<or> well_formed_line lib line) lines" by simp_all
  from process_line_returns [OF here Cons.prems(2)] obtain st1 where
    one: "process_line lib st line = Inr st1" and
    inv: "custom_id st1 = None \<or> (\<exists>c. custom_id st1 = Some c \<and> hashable c)" by blast
  from Cons.IH [OF later inv] obtain st' where "process_lines lib st1 lines = Inr st'" by blast
  with one show ?case by simp
qed

text \<open>
  X2. The loop over the lines of the output document raises nothing when every
  non-empty line is well formed: it decodes to a dictionary, and its \<^verbatim>\<open>custom_id\<close> is
  not a list or a dictionary.
\<close>

theorem line_loop_returns_on_well_formed_lines:
  assumes "list_all (\<lambda>line. line = [] \<or> well_formed_line lib line) (split_nl (strip text_content))"
  shows "\<exists>st. process_lines lib initial_state (split_nl (strip text_content)) = Inr st"
  by (rule process_lines_returns [OF assms]) (simp add: initial_state_def)

text \<open>Two well-formed lines with an empty line between them.\<close>

theorem line_loop_returns_on_well_formed_lines_witness:
  "list_all (\<lambda>line. line = [] \<or> well_formed_line sample_lib line)
     (split_nl (strip (line_b @ [CHR 0x0A, CHR 0x0A] @ line_a5))) \<and>
   (\<exists>st. process_lines sample_lib initial_state
           (split_nl (strip (line_b @ [CHR 0x0A, CHR 0x0A] @ line_a5))) = Inr st)"
proof -
  have w: "list_all (\<lambda>line. line = [] \<or> well_formed_line sample_lib line)
     (split_nl (strip (line_b @ [CHR 0x0A, CHR 0x0A] @ line_a5)))"
    by code_simp
  from line_loop_returns_on_well_formed_lines [OF w] w show ?thesis
    by (simp only: simp_thms)
qed

lemma merge_item_returns:
  assumes "usable lib (case rm (JStr cid) of None \<Rightarrow> JNull | Some v \<Rightarrow> v)"
  shows "\<exists>a. merge_item lib rm (cid, body) = Inr a"
  using assms
  by (auto simp add: merge_item_def usable_def bindE_def Let_def
           split: if_splits json.splits option.splits)

text \<open>
  X3. The merge loop raises nothing when the value stored for each input id, if there
  is one, is usable: false, or a dictionary that holds the key \<^verbatim>\<open>error\<close> or passes the
  validation of \<^verbatim>\<open>ToxicityAnalysis\<close>.
\<close>

theorem merge_loop_returns_on_usable_values:
  assumes "list_all (\<lambda>entry. usable lib (case rm (JStr (fst entry)) of None \<Rightarrow> JNull | Some v \<Rightarrow> v))
             original_map"
  shows "\<exists>out. merge_results lib rm original_map = Inr out"
  using assms
proof (induction original_map)
  case Nil
  then show ?case by simp
next
  case (Cons entry original_map)
  obtain cid body where entry: "entry = (cid, body)" by (cases entry)
  with Cons.prems have "usable lib (case rm (JStr cid) of None \<Rightarrow> JNull | Some v \<Rightarrow> v)" by simp
  from merge_item_returns [of lib rm cid body, OF this]
  obtain a where a: "merge_item lib rm (cid, body) = Inr a" by blast
  from Cons.prems have "list_all (\<lambda>entry. usable lib (case rm (JStr (fst entry)) of None \<Rightarrow> JNull | Some v \<Rightarrow> v))
             original_map" by simp
  from Cons.IH [OF this] obtain out where "merge_results lib rm original_map = Inr out" by blast
  with a entry show ?case by simp
qed

text \<open>A stored analysis for \<^verbatim>\<open>a\<close>, nothing for \<^verbatim>\<open>b\<close>, an unusable value for another id.\<close>

theorem merge_loop_returns_on_usable_values_witness:
  "list_all (\<lambda>entry. usable sample_lib
       (case [JStr ''a'' \<mapsto> analysis_json_a, JStr ''c'' \<mapsto> JInt 5] (JStr (fst entry)) of
          None \<Rightarrow> JNull | Some v \<Rightarrow> v))
     (original_map_of [comment_a, comment_b]) \<and>
   (\<exists>out. merge_results sample_lib [JStr ''a'' \<mapsto> analysis_json_a, JStr ''c'' \<mapsto> JInt 5]
            (original_map_of [comment_a, comment_b]) = Inr out)"
proof -
  have u: "list_all (\<lambda>entry. usable sample_lib
       (case [JStr ''a'' \<mapsto> analysis_json_a, JStr ''c'' \<mapsto> JInt 5] (JStr (fst entry)) of
          None \<Rightarrow> JNull | Some v \<Rightarrow> v))
     (original_map_of [comment_a, comment_b])"
    by code_simp
  from merge_loop_returns_on_usable_values [OF u] u show ?thesis
    by (simp only: simp_thms)
qed

end
